theory Spec2Isabelle
  imports Main "HOL-Library.AList"
begin

section \<open>Data coordinator: the segment table (internal/datacoord/meta.go)\<close>

text \<open>
  Go's \<open>int64\<close> identifiers and row counts are only stored and compared by the functions below,
  never added, so they are integers; \<open>uint64\<close> timestamps are naturals. A pointer that may be
  \<open>nil\<close> is an \<open>option\<close>; the nil-safe protobuf getters (\<open>GetMsgID\<close> on a nil position gives
  the empty byte string) are written out where the source uses them.
\<close>

type_synonym UniqueID = int

text \<open>
  Modelled from the spec: the enum \<open>commonpb.SegmentState\<close> is declared outside the sources at
  hand; the segment states are those of the specification's state machine.
\<close>

datatype SegmentState = Growing | Sealed | Flushing | Flushed | Dropped

text \<open>The position of a state in the order Growing < Sealed < Flushing < Flushed < Dropped.\<close>

fun state_rank :: "SegmentState \<Rightarrow> nat" where
  "state_rank Growing = 0"
| "state_rank Sealed = 1"
| "state_rank Flushing = 2"
| "state_rank Flushed = 3"
| "state_rank Dropped = 4"

record MsgPosition =
  ChannelName :: string
  MsgID :: "nat list"
  MsgGroup :: string
  Timestamp :: nat

record SegmentInfo =
  ID :: UniqueID
  CollectionID :: UniqueID
  PartitionID :: UniqueID
  InsertChannel :: string
  NumOfRows :: int
  State :: SegmentState
  LastExpireTime :: nat
  StartPosition :: "MsgPosition option"
  DmlPosition :: "MsgPosition option"

record CheckPoint =
  cp_SegmentID :: UniqueID
  cp_Position :: "MsgPosition option"
  cp_NumOfRows :: int

record SegmentStartPosition =
  sp_StartPosition :: "MsgPosition option"
  sp_SegmentID :: UniqueID

datatype ChannelWatchState = Uncomplete | Complete

record ChannelStatus =
  ch_Name :: string
  ch_State :: ChannelWatchState
  ch_CollectionID :: UniqueID

record DataNodeInfo =
  Address :: string
  Version :: int
  Channels :: "ChannelStatus list"

text \<open>\<open>pos.GetStartPosition().GetMsgID()\<close>: both getters are nil-safe.\<close>

definition GetMsgID :: "MsgPosition option \<Rightarrow> nat list" where
  "GetMsgID p = (case p of None \<Rightarrow> [] | Some q \<Rightarrow> MsgID q)"

subsection \<open>The in-memory segment container\<close>

text \<open>
  Modelled from the spec: the type \<open>SegmentsInfo\<close> and its accessors are declared outside the
  sources at hand. It is the table "segment id to segment info" of the \<open>meta\<close> struct; its
  setters are taken to be plain field updates of the row with the given id, and to do nothing
  when there is no such row (every caller in meta.go asks \<open>GetSegment\<close> for \<open>nil\<close> itself,
  and puts its own guards before the setters). The table is an association list with one row
  per id; \<open>GetSegments\<close> lists the rows, in an order Go leaves unspecified.
\<close>

type_synonym SegmentsInfo = "(UniqueID \<times> SegmentInfo) list"

definition NewSegmentsInfo :: SegmentsInfo where
  "NewSegmentsInfo = []"

definition SegmentsInfo_GetSegment :: "SegmentsInfo \<Rightarrow> UniqueID \<Rightarrow> SegmentInfo option" where
  "SegmentsInfo_GetSegment s segmentID = map_of s segmentID"

definition SegmentsInfo_GetSegments :: "SegmentsInfo \<Rightarrow> SegmentInfo list" where
  "SegmentsInfo_GetSegments s = map snd s"

definition SegmentsInfo_SetSegment :: "UniqueID \<Rightarrow> SegmentInfo \<Rightarrow> SegmentsInfo \<Rightarrow> SegmentsInfo" where
  "SegmentsInfo_SetSegment segmentID segment s = AList.update segmentID segment s"

definition SegmentsInfo_DropSegment :: "UniqueID \<Rightarrow> SegmentsInfo \<Rightarrow> SegmentsInfo" where
  "SegmentsInfo_DropSegment segmentID s = AList.delete segmentID s"

definition SegmentsInfo_SetRowCount :: "UniqueID \<Rightarrow> int \<Rightarrow> SegmentsInfo \<Rightarrow> SegmentsInfo" where
  "SegmentsInfo_SetRowCount segmentID rowCount s =
     AList.map_entry segmentID (\<lambda>seg. seg\<lparr>NumOfRows := rowCount\<rparr>) s"

definition SegmentsInfo_SetLasteExpiraTime :: "UniqueID \<Rightarrow> nat \<Rightarrow> SegmentsInfo \<Rightarrow> SegmentsInfo" where
  "SegmentsInfo_SetLasteExpiraTime segmentID expireTs s =
     AList.map_entry segmentID (\<lambda>seg. seg\<lparr>LastExpireTime := expireTs\<rparr>) s"

definition SegmentsInfo_SetState :: "UniqueID \<Rightarrow> SegmentState \<Rightarrow> SegmentsInfo \<Rightarrow> SegmentsInfo" where
  "SegmentsInfo_SetState segmentID st s =
     AList.map_entry segmentID (\<lambda>seg. seg\<lparr>State := st\<rparr>) s"

definition SegmentsInfo_SetStartPosition ::
  "UniqueID \<Rightarrow> MsgPosition option \<Rightarrow> SegmentsInfo \<Rightarrow> SegmentsInfo" where
  "SegmentsInfo_SetStartPosition segmentID pos s =
     AList.map_entry segmentID (\<lambda>seg. seg\<lparr>StartPosition := pos\<rparr>) s"

definition SegmentsInfo_SetDmlPositino ::
  "UniqueID \<Rightarrow> MsgPosition option \<Rightarrow> SegmentsInfo \<Rightarrow> SegmentsInfo" where
  "SegmentsInfo_SetDmlPositino segmentID pos s =
     AList.map_entry segmentID (\<lambda>seg. seg\<lparr>DmlPosition := pos\<rparr>) s"

subsection \<open>The key-value client\<close>

text \<open>
  The \<open>kv.TxnKV\<close> client is an interface. A stored value is either a caller's string or the
  text serialisation of a protobuf message (a segment row, a data-node row), kept here as the
  message itself. \<open>kv_down\<close> stands for a
  store that rejects writes: \<open>Save\<close>, \<open>Remove\<close> and \<open>MultiSave\<close> then return an error and
  store nothing.
\<close>

datatype KvValue = Text string | SegText SegmentInfo | NodeText DataNodeInfo

record TxnKV =
  kv_store :: "string \<rightharpoonup> KvValue"
  kv_down :: bool

text \<open>
  The errors of the Go code, as values. \<open>NilPointer\<close> is the panic of a read through a nil
  pointer; the others are returned \<open>error\<close>s, named after what raises them.
\<close>

datatype error =
    KvError
  | NilPointer
  | KeyNotFound
  | UnmarshalError
  | CollectionNotFound
  | BroadcastError
  | InvalidDdOperation string
  | OtherError string

definition kv_Save :: "string \<Rightarrow> KvValue \<Rightarrow> TxnKV \<Rightarrow> error option \<times> TxnKV" where
  "kv_Save key v c =
     (if kv_down c then (Some KvError, c)
      else (None, c\<lparr>kv_store := (kv_store c)(key \<mapsto> v)\<rparr>))"

definition kv_Remove :: "string \<Rightarrow> TxnKV \<Rightarrow> error option \<times> TxnKV" where
  "kv_Remove key c =
     (if kv_down c then (Some KvError, c)
      else (None, c\<lparr>kv_store := (kv_store c)(key := None)\<rparr>))"

definition kv_MultiSave :: "(string \<times> KvValue) list \<Rightarrow> TxnKV \<Rightarrow> error option \<times> TxnKV" where
  "kv_MultiSave kvs c =
     (if kv_down c then (Some KvError, c)
      else (None, c\<lparr>kv_store := kv_store c ++ map_of kvs\<rparr>))"

subsection \<open>Key paths\<close>

fun show_nat :: "nat \<Rightarrow> string" where
  "show_nat n =
     (if n < 10 then [char_of (48 + n)] else show_nat (n div 10) @ [char_of (48 + n mod 10)])"

declare show_nat.simps [simp del]

definition show_int :: "int \<Rightarrow> string" where
  "show_int i = (if i < 0 then CHR ''-'' # show_nat (nat (- i)) else show_nat (nat i))"

definition metaPrefix :: string where
  "metaPrefix = ''datacoord-meta''"

definition segmentPrefix :: string where
  "segmentPrefix = metaPrefix @ ''/s''"

definition buildSegmentPath :: "UniqueID \<Rightarrow> UniqueID \<Rightarrow> UniqueID \<Rightarrow> string" where
  "buildSegmentPath collectionID partitionID segmentID =
     segmentPrefix @ ''/'' @ show_int collectionID @ ''/'' @ show_int partitionID
       @ ''/'' @ show_int segmentID"

subsection \<open>The meta table and its operations\<close>

text \<open>
  The \<open>collections\<close> field of the struct is left out: none of the operations below reads it.
  The lock is not modelled; every operation runs under it from start to end. An operation
  returns its Go \<open>error\<close> (\<open>None\<close> for \<open>nil\<close>) together with the table as it leaves it: the
  in-memory rows are changed before the store is written, and stay changed when the write
  fails.
\<close>

record meta =
  client :: TxnKV
  segments :: SegmentsInfo

definition saveSegmentInfo :: "SegmentInfo \<Rightarrow> meta \<Rightarrow> error option \<times> meta" where
  "saveSegmentInfo segment m =
     (let key = buildSegmentPath (CollectionID segment) (PartitionID segment) (ID segment);
          (err, c) = kv_Save key (SegText segment) (client m)
      in (err, m\<lparr>client := c\<rparr>))"

definition saveKvTxn :: "(string \<times> KvValue) list \<Rightarrow> meta \<Rightarrow> error option \<times> meta" where
  "saveKvTxn kvs m = (let (err, c) = kv_MultiSave kvs (client m) in (err, m\<lparr>client := c\<rparr>))"

definition AddSegment :: "SegmentInfo \<Rightarrow> meta \<Rightarrow> error option \<times> meta" where
  "AddSegment segment m =
     saveSegmentInfo segment (m\<lparr>segments := SegmentsInfo_SetSegment (ID segment) segment (segments m)\<rparr>)"

definition GetSegment :: "meta \<Rightarrow> UniqueID \<Rightarrow> SegmentInfo option" where
  "GetSegment m segID = SegmentsInfo_GetSegment (segments m) segID"

definition SetRowCount :: "UniqueID \<Rightarrow> int \<Rightarrow> meta \<Rightarrow> error option \<times> meta" where
  "SetRowCount segmentID rowCount m =
     (let m1 = m\<lparr>segments := SegmentsInfo_SetRowCount segmentID rowCount (segments m)\<rparr>
      in case SegmentsInfo_GetSegment (segments m1) segmentID of
           Some segment \<Rightarrow> saveSegmentInfo segment m1
         | None \<Rightarrow> (None, m1))"

definition SetState :: "UniqueID \<Rightarrow> SegmentState \<Rightarrow> meta \<Rightarrow> error option \<times> meta" where
  "SetState segmentID st m =
     (let m1 = m\<lparr>segments := SegmentsInfo_SetState segmentID st (segments m)\<rparr>
      in case SegmentsInfo_GetSegment (segments m1) segmentID of
           Some segInfo \<Rightarrow> saveSegmentInfo segInfo m1
         | None \<Rightarrow> (None, m1))"

text \<open>
  \<open>SaveBinlogAndCheckPoints\<close>. The three loops of the source are three recursive functions
  over the argument lists. \<open>kv[key] = v\<close> on the Go map is \<open>AList.update\<close>: the last write
  to a key wins. The second loop reads \<open>cp.Position.Timestamp\<close> through the pointer without
  a nil check, after \<open>segment.DmlPosition != nil\<close> has let it through: with a nil
  \<open>cp.Position\<close> there the call panics, the rows changed so far stay changed and nothing is
  saved.
\<close>

fun binlogs_loop :: "(string \<times> string) list \<Rightarrow> (string \<times> KvValue) list \<Rightarrow> (string \<times> KvValue) list" where
  "binlogs_loop [] kv = kv"
| "binlogs_loop ((k, v) # rest) kv = binlogs_loop rest (AList.update k (Text v) kv)"

fun startPositions_loop ::
  "SegmentStartPosition list \<Rightarrow> SegmentsInfo \<Rightarrow> UniqueID list \<Rightarrow> SegmentsInfo \<times> UniqueID list" where
  "startPositions_loop [] s modSegments = (s, modSegments)"
| "startPositions_loop (pos # rest) s modSegments =
     (if length (GetMsgID (sp_StartPosition pos)) \<noteq> 0
      then startPositions_loop rest s modSegments
      else case SegmentsInfo_GetSegment s (sp_SegmentID pos) of
             Some segment \<Rightarrow>
               startPositions_loop rest
                 (SegmentsInfo_SetStartPosition (sp_SegmentID pos) (sp_StartPosition pos) s)
                 (modSegments @ [sp_SegmentID pos])
           | None \<Rightarrow> startPositions_loop rest s modSegments)"

text \<open>
  The guard of the second loop: \<open>Inr True\<close> when the stored position is not older than the
  checkpoint (the \<open>continue\<close>), \<open>Inr False\<close> when the checkpoint is to be applied.
\<close>

definition checkpoint_is_stale :: "SegmentInfo \<Rightarrow> CheckPoint \<Rightarrow> error + bool" where
  "checkpoint_is_stale segment cp =
     (case DmlPosition segment of
        None \<Rightarrow> Inr False
      | Some dp \<Rightarrow>
          (case cp_Position cp of
             None \<Rightarrow> Inl NilPointer
           | Some p \<Rightarrow> Inr (Timestamp dp \<ge> Timestamp p)))"

fun checkpoints_loop ::
  "CheckPoint list \<Rightarrow> SegmentsInfo \<Rightarrow> UniqueID list \<Rightarrow> error option \<times> SegmentsInfo \<times> UniqueID list" where
  "checkpoints_loop [] s modSegments = (None, s, modSegments)"
| "checkpoints_loop (cp # rest) s modSegments =
     (case SegmentsInfo_GetSegment s (cp_SegmentID cp) of
        None \<Rightarrow> checkpoints_loop rest s modSegments
      | Some segment \<Rightarrow>
          (case checkpoint_is_stale segment cp of
             Inl e \<Rightarrow> (Some e, s, modSegments)
           | Inr True \<Rightarrow> checkpoints_loop rest s modSegments
           | Inr False \<Rightarrow>
               checkpoints_loop rest
                 (SegmentsInfo_SetRowCount (cp_SegmentID cp) (cp_NumOfRows cp)
                    (SegmentsInfo_SetDmlPositino (cp_SegmentID cp) (cp_Position cp) s))
                 (modSegments @ [ID segment])))"

fun modSegments_loop ::
  "UniqueID list \<Rightarrow> SegmentsInfo \<Rightarrow> (string \<times> KvValue) list \<Rightarrow> (string \<times> KvValue) list" where
  "modSegments_loop [] s kv = kv"
| "modSegments_loop (i # rest) s kv =
     (case SegmentsInfo_GetSegment s i of
        Some segment \<Rightarrow>
          modSegments_loop rest s
            (AList.update
               (buildSegmentPath (CollectionID segment) (PartitionID segment) (ID segment))
               (SegText segment) kv)
      | None \<Rightarrow> modSegments_loop rest s kv)"

definition SaveBinlogAndCheckPoints ::
  "UniqueID \<Rightarrow> bool \<Rightarrow> (string \<times> string) list \<Rightarrow> CheckPoint list \<Rightarrow> SegmentStartPosition list
     \<Rightarrow> meta \<Rightarrow> error option \<times> meta" where
  "SaveBinlogAndCheckPoints segID flushed binlogs checkpoints startPositions m =
     (let kv = binlogs_loop binlogs [];
          s0 = (if flushed then SegmentsInfo_SetState segID Flushing (segments m) else segments m);
          (s1, mods1) = startPositions_loop startPositions s0 [];
          (err, s2, mods2) = checkpoints_loop checkpoints s1 mods1
      in case err of
           Some e \<Rightarrow> (Some e, m\<lparr>segments := s2\<rparr>)
         | None \<Rightarrow> saveKvTxn (modSegments_loop mods2 s2 kv) (m\<lparr>segments := s2\<rparr>))"

text \<open>
  Flush completion (\<open>startFlushLoop\<close> in server.go), for one segment id taken from the flush
  channel: the segment is looked up, the root coordinator is told, and on its acknowledgement
  the state is set to Flushed. \<open>acked\<close> is the outcome of the \<open>SegmentFlushCompleted\<close> call.
\<close>

definition flushCompleted :: "(SegmentInfo \<Rightarrow> bool) \<Rightarrow> UniqueID \<Rightarrow> meta \<Rightarrow> meta" where
  "flushCompleted acked segmentID m =
     (case GetSegment m segmentID of
        None \<Rightarrow> m
      | Some segment \<Rightarrow>
          if \<not> acked segment then m else snd (SetState segmentID Flushed m))"

text \<open>
  \<open>GetUnFlushedSegments\<close>: the loop appends to \<open>ret\<close> every row whose state is neither
  Flushing nor Flushed.
\<close>

fun unflushed_loop :: "SegmentInfo list \<Rightarrow> SegmentInfo list \<Rightarrow> SegmentInfo list" where
  "unflushed_loop [] ret = ret"
| "unflushed_loop (info # rest) ret =
     (if State info \<noteq> Flushing \<and> State info \<noteq> Flushed
      then unflushed_loop rest (ret @ [info])
      else unflushed_loop rest ret)"

definition GetUnFlushedSegments :: "meta \<Rightarrow> SegmentInfo list" where
  "GetUnFlushedSegments m = unflushed_loop (SegmentsInfo_GetSegments (segments m)) []"

fun flushing_loop :: "SegmentInfo list \<Rightarrow> SegmentInfo list \<Rightarrow> SegmentInfo list" where
  "flushing_loop [] ret = ret"
| "flushing_loop (info # rest) ret =
     (if State info = Flushing
      then flushing_loop rest (ret @ [info])
      else flushing_loop rest ret)"

definition GetFlushingSegments :: "meta \<Rightarrow> SegmentInfo list" where
  "GetFlushingSegments m = flushing_loop (SegmentsInfo_GetSegments (segments m)) []"

section \<open>Data coordinator: the data-node cluster (package datacoord, type Cluster)\<close>

text \<open>
  Modelled from the spec: the types \<open>NodeInfo\<close> and \<open>ClusterStore\<close> are declared outside the
  sources at hand. A \<open>NodeInfo\<close> wraps the \<open>DataNodeInfo\<close> row of one data-node together with
  its event channel; the channel's contents are kept in the cluster state, as the list of
  events sent so far with the version of the node they were sent to. The store maps a node's
  version to the node: \<open>GetNode\<close> gives \<open>nil\<close> for an unknown version, \<open>SetNode\<close> and
  \<open>DeleteNode\<close> add and remove a row. \<open>Dispose\<close> cancels the context of a node that the
  caller then drops from the store; it leaves no trace in the state below.
\<close>

record NodeInfo =
  info :: DataNodeInfo

type_synonym ClusterStore = "(int \<times> NodeInfo) list"

definition ClusterStore_GetNode :: "ClusterStore \<Rightarrow> int \<Rightarrow> NodeInfo option" where
  "ClusterStore_GetNode st v = map_of st v"

definition ClusterStore_GetNodes :: "ClusterStore \<Rightarrow> NodeInfo list" where
  "ClusterStore_GetNodes st = map snd st"

definition ClusterStore_SetNode :: "int \<Rightarrow> NodeInfo \<Rightarrow> ClusterStore \<Rightarrow> ClusterStore" where
  "ClusterStore_SetNode v n st = AList.update v n st"

definition ClusterStore_DeleteNode :: "int \<Rightarrow> ClusterStore \<Rightarrow> ClusterStore" where
  "ClusterStore_DeleteNode v st = AList.delete v st"

record vchannel =
  vc_CollectionID :: UniqueID
  vc_DmlChannel :: string

text \<open>
  A \<open>NodeEvent\<close> carries a request: the channels to watch (what the position provider
  returned for the uncomplete channels), or the segments to flush.
\<close>

datatype 'v NodeEvent = Watch "'v list" | Flush UniqueID "UniqueID list"

record 'v Cluster =
  nodes :: ClusterStore
  chanBuffer :: "ChannelStatus list"
  kv :: TxnKV
  nodeEvents :: "(int \<times> 'v NodeEvent) list"

definition clusterPrefix :: string where
  "clusterPrefix = ''cluster-prefix/''"

definition clusterBuffer :: string where
  "clusterBuffer = ''cluster-buffer''"

fun txnSave_nodes_loop :: "NodeInfo list \<Rightarrow> (string \<times> KvValue) list \<Rightarrow> (string \<times> KvValue) list" where
  "txnSave_nodes_loop [] data = data"
| "txnSave_nodes_loop (n # rest) data =
     txnSave_nodes_loop rest
       (AList.update (clusterPrefix @ show_int (Version (info n))) (NodeText (info n)) data)"

definition txnSaveNodesAndBuffer ::
  "NodeInfo list \<Rightarrow> ChannelStatus list \<Rightarrow> 'v Cluster \<Rightarrow> error option \<times> 'v Cluster" where
  "txnSaveNodesAndBuffer ns buffer c =
     (if length ns = 0 \<and> length buffer = 0 then (None, c)
      else
        let data = txnSave_nodes_loop ns [];
            bufNode = \<lparr>Address = [], Version = 0, Channels = buffer\<rparr>;
            data' = AList.update clusterBuffer (NodeText bufNode) data;
            (err, k) = kv_MultiSave data' (kv c)
        in (err, c\<lparr>kv := k\<rparr>))"

text \<open>
  \<open>watch\<close>: collect the uncomplete channels of the node; with none, return; ask the position
  provider (an interface, here the parameter \<open>GetVChanPositions\<close>) and, unless it fails, put
  a Watch event on the node's event channel.
\<close>

fun uncompletes_loop :: "ChannelStatus list \<Rightarrow> vchannel list \<Rightarrow> vchannel list" where
  "uncompletes_loop [] acc = acc"
| "uncompletes_loop (ch # rest) acc =
     (if ch_State ch = Uncomplete
      then uncompletes_loop rest
             (acc @ [\<lparr>vc_CollectionID = ch_CollectionID ch, vc_DmlChannel = ch_Name ch\<rparr>])
      else uncompletes_loop rest acc)"

definition watch :: "(vchannel list \<Rightarrow> error + 'v list) \<Rightarrow> NodeInfo \<Rightarrow> 'v Cluster \<Rightarrow> 'v Cluster" where
  "watch GetVChanPositions n c =
     (let uncompletes = uncompletes_loop (Channels (info n)) []
      in if length uncompletes = 0 then c
         else case GetVChanPositions uncompletes of
                Inl err \<Rightarrow> c
              | Inr vchanInfos \<Rightarrow>
                  c\<lparr>nodeEvents := nodeEvents c @ [(Version (info n), Watch vchanInfos)]\<rparr>)"

fun setNodes_loop :: "NodeInfo list \<Rightarrow> ClusterStore \<Rightarrow> ClusterStore" where
  "setNodes_loop [] st = st"
| "setNodes_loop (n # rest) st = setNodes_loop rest (ClusterStore_SetNode (Version (info n)) n st)"

fun watch_loop :: "(vchannel list \<Rightarrow> error + 'v list) \<Rightarrow> NodeInfo list \<Rightarrow> 'v Cluster \<Rightarrow> 'v Cluster" where
  "watch_loop GetVChanPositions [] c = c"
| "watch_loop GetVChanPositions (n # rest) c =
     watch_loop GetVChanPositions rest (watch GetVChanPositions n c)"

fun buffer_loop :: "ChannelStatus list \<Rightarrow> ChannelStatus list \<Rightarrow> ChannelStatus list" where
  "buffer_loop [] buf = buf"
| "buffer_loop (chStat # rest) buf = buffer_loop rest (buf @ [chStat\<lparr>ch_State := Uncomplete\<rparr>])"

text \<open>
  \<open>handleUnRegister\<close>. The unregister policy is a field of function type, here the parameter
  \<open>unregisterPolicy\<close>. The error of \<open>txnSaveNodesAndBuffer\<close> is dropped, as in the source.
\<close>

definition handleUnRegister ::
  "(NodeInfo list \<Rightarrow> NodeInfo \<Rightarrow> NodeInfo list) \<Rightarrow> (vchannel list \<Rightarrow> error + 'v list)
     \<Rightarrow> NodeInfo \<Rightarrow> 'v Cluster \<Rightarrow> 'v Cluster" where
  "handleUnRegister unregisterPolicy GetVChanPositions n c =
     (case ClusterStore_GetNode (nodes c) (Version (info n)) of
        None \<Rightarrow> c
      | Some node \<Rightarrow>
          let c1 = c\<lparr>nodes := ClusterStore_DeleteNode (Version (info n)) (nodes c)\<rparr>;
              cNodes = ClusterStore_GetNodes (nodes c1);
              (rets, c2) =
                (if length cNodes = 0
                 then ([], c1\<lparr>chanBuffer := buffer_loop (Channels (info node)) (chanBuffer c1)\<rparr>)
                 else (unregisterPolicy cNodes n, c1));
              c3 = snd (txnSaveNodesAndBuffer rets (chanBuffer c2) c2);
              c4 = c3\<lparr>nodes := setNodes_loop rets (nodes c3)\<rparr>
          in watch_loop GetVChanPositions rets c4)"

section \<open>Index coordinator (package indexcoord, type IndexCoord)\<close>

text \<open>
  Modelled from the spec: the protobuf enums \<open>commonpb.ErrorCode\<close>, \<open>commonpb.IndexState\<close>
  and \<open>internalpb.StateCode\<close> are declared outside the sources at hand; the values are the
  ones the sources and the specification name.
\<close>

datatype ErrorCode = Success | UnexpectedError | IndexNotExist

datatype IndexState = IndexStateNone | Unissued | InProgress | Finished | Failed

datatype StateCode = Initializing | Healthy | Abnormal

record Status =
  ErrorCode :: ErrorCode
  Reason :: string

record BuildIndexRequest =
  req_IndexBuildID :: UniqueID
  req_IndexName :: string
  req_IndexID :: UniqueID
  req_DataPaths :: "string list"
  req_TypeParams :: "(string \<times> string) list"
  req_IndexParams :: "(string \<times> string) list"

record BuildIndexResponse =
  resp_Status :: Status
  resp_IndexBuildID :: UniqueID

record IndexMeta =
  IndexBuildID :: UniqueID
  im_State :: IndexState
  Req :: BuildIndexRequest
  MarkDeleted :: bool
  NodeID :: UniqueID
  im_Version :: int

record CreateIndexRequest =
  ci_IndexBuildID :: UniqueID
  ci_IndexName :: string
  ci_IndexID :: UniqueID
  ci_Version :: int
  ci_MetaPath :: string
  ci_DataPaths :: "string list"
  ci_TypeParams :: "(string \<times> string) list"
  ci_IndexParams :: "(string \<times> string) list"

text \<open>The outcome of an RPC to a worker: a transport error, or the worker's status.\<close>

datatype RpcResult = RpcError string | RpcStatus Status

subsection \<open>The meta table of build tasks\<close>

text \<open>
  Modelled from the spec: the type \<open>metaTable\<close> and its methods (\<open>HasSameReq\<close>,
  \<open>GetIndexMeta\<close>, \<open>UpdateVersion\<close>, \<open>BuildIndex\<close>) are declared outside the sources at
  hand. The table maps a build-id to the task's meta. The fingerprint of a request is taken
  over data-paths, type-params, index-params, index-id and index-name, the data-paths in their
  order; \<open>HasSameReq\<close> returns the build-id of an existing task that is not marked deleted
  and has the fingerprint of the request. \<open>UpdateVersion\<close> bumps the task's version;
  \<open>metaTable_BuildIndex\<close> moves the task's state to InProgress on the given node.
\<close>

type_synonym metaTable = "(UniqueID \<times> IndexMeta) list"

definition fingerprint ::
  "BuildIndexRequest \<Rightarrow> string list \<times> (string \<times> string) list \<times> (string \<times> string) list \<times> UniqueID \<times> string" where
  "fingerprint req =
     (req_DataPaths req, req_TypeParams req, req_IndexParams req, req_IndexID req, req_IndexName req)"

fun HasSameReq :: "metaTable \<Rightarrow> BuildIndexRequest \<Rightarrow> bool \<times> UniqueID" where
  "HasSameReq [] req = (False, 0)"
| "HasSameReq ((k, m) # rest) req =
     (if \<not> MarkDeleted m \<and> fingerprint (Req m) = fingerprint req
      then (True, IndexBuildID m)
      else HasSameReq rest req)"

definition GetIndexMeta :: "metaTable \<Rightarrow> UniqueID \<Rightarrow> IndexMeta option" where
  "GetIndexMeta t indexBuildID = map_of t indexBuildID"

definition UpdateVersion :: "UniqueID \<Rightarrow> metaTable \<Rightarrow> metaTable" where
  "UpdateVersion indexBuildID t =
     AList.map_entry indexBuildID (\<lambda>m. m\<lparr>im_Version := im_Version m + 1\<rparr>) t"

definition metaTable_BuildIndex :: "UniqueID \<Rightarrow> UniqueID \<Rightarrow> metaTable \<Rightarrow> metaTable" where
  "metaTable_BuildIndex indexBuildID nodeID t =
     AList.map_entry indexBuildID (\<lambda>m. m\<lparr>im_State := InProgress, NodeID := nodeID\<rparr>) t"

subsection \<open>The priority queue of workers and the per-node task sets\<close>

text \<open>
  Modelled from the spec: the types \<open>PriorityQueue\<close> and \<open>nodeTasks\<close> and the method
  \<open>removeNode\<close> are declared outside the sources at hand. The queue holds the known workers
  with their count of outstanding tasks; \<open>PeekClient\<close> gives the worker with the lowest
  count, the lowest server-id among equals, and no client when the queue is empty;
  \<open>IncPriority\<close> adds to a worker's count; \<open>removeNode\<close> takes the worker out of the queue.
  \<open>nodeTasks\<close> maps a worker-id to its build-ids.
\<close>

record PQItem =
  pq_key :: UniqueID
  pq_priority :: int

type_synonym PriorityQueue = "PQItem list"

fun pq_best :: "PQItem \<Rightarrow> PQItem list \<Rightarrow> PQItem" where
  "pq_best b [] = b"
| "pq_best b (x # xs) =
     pq_best (if pq_priority x < pq_priority b \<or> (pq_priority x = pq_priority b \<and> pq_key x < pq_key b)
              then x else b) xs"

definition PeekClient :: "PriorityQueue \<Rightarrow> UniqueID option" where
  "PeekClient q = (case q of [] \<Rightarrow> None | x # xs \<Rightarrow> Some (pq_key (pq_best x xs)))"

definition IncPriority :: "UniqueID \<Rightarrow> int \<Rightarrow> PriorityQueue \<Rightarrow> PriorityQueue" where
  "IncPriority nodeID d q =
     map (\<lambda>x. if pq_key x = nodeID then x\<lparr>pq_priority := pq_priority x + d\<rparr> else x) q"

definition pq_Remove :: "UniqueID \<Rightarrow> PriorityQueue \<Rightarrow> PriorityQueue" where
  "pq_Remove nodeID q = filter (\<lambda>x. pq_key x \<noteq> nodeID) q"

type_synonym nodeTasks = "(UniqueID \<times> UniqueID list) list"

definition getTasksByNodeID :: "nodeTasks \<Rightarrow> UniqueID \<Rightarrow> UniqueID list" where
  "getTasksByNodeID nt nodeID = (case map_of nt nodeID of None \<Rightarrow> [] | Some ids \<Rightarrow> ids)"

definition assignTask :: "UniqueID \<Rightarrow> UniqueID \<Rightarrow> nodeTasks \<Rightarrow> nodeTasks" where
  "assignTask nodeID indexBuildID nt =
     AList.update nodeID (getTasksByNodeID nt nodeID @ [indexBuildID]) nt"

definition nodeTasks_delete :: "UniqueID \<Rightarrow> nodeTasks \<Rightarrow> nodeTasks" where
  "nodeTasks_delete nodeID nt = AList.delete nodeID nt"

subsection \<open>The coordinator\<close>

text \<open>
  The assignment channel is a queue of slices of build-ids. \<open>idAllocator\<close> is the next
  identifier the global allocator hands out. Identifiers, versions and priorities are counted
  up by one from small values; the wrap-around of \<open>int64\<close> is out of their reach and is
  not modelled.
\<close>

record IndexCoord =
  stateCode :: StateCode
  metaTable :: metaTable
  assignChan :: "UniqueID list list"
  nodeClients :: PriorityQueue
  nodeTasks :: nodeTasks
  idAllocator :: UniqueID

definition removeNode :: "UniqueID \<Rightarrow> IndexCoord \<Rightarrow> IndexCoord" where
  "removeNode nodeID i = i\<lparr>nodeClients := pq_Remove nodeID (nodeClients i)\<rparr>"

text \<open>
  Modelled from the spec: the task \<open>IndexAddTask\<close> that \<open>BuildIndex\<close> enqueues and waits for
  is declared outside the sources at hand. It allocates a fresh build-id and writes the meta
  of the new task, in state None; \<open>taskErr\<close> is the error of a task that fails, which then
  writes nothing.
\<close>

definition IndexAddTask_run ::
  "string option \<Rightarrow> BuildIndexRequest \<Rightarrow> IndexCoord \<Rightarrow> string + (UniqueID \<times> IndexCoord)" where
  "IndexAddTask_run taskErr req i =
     (case taskErr of
        Some e \<Rightarrow> Inl e
      | None \<Rightarrow>
          let indexBuildID = idAllocator i;
              m = \<lparr>IndexBuildID = indexBuildID, im_State = IndexStateNone, Req = req,
                   MarkDeleted = False, NodeID = 0, im_Version = 0\<rparr>
          in Inr (indexBuildID,
                  i\<lparr>idAllocator := indexBuildID + 1,
                    metaTable := AList.update indexBuildID m (metaTable i)\<rparr>))"

text \<open>
  \<open>BuildIndex\<close>. \<open>enqueueErr\<close> is the error of putting the task on the scheduler's queue
  (the context is done, or the queue refuses), \<open>taskErr\<close> the error \<open>WaitToFinish\<close> returns.
  The function never reads the coordinator's state code.
\<close>

definition BuildIndex ::
  "string option \<Rightarrow> string option \<Rightarrow> BuildIndexRequest \<Rightarrow> IndexCoord
     \<Rightarrow> BuildIndexResponse \<times> IndexCoord" where
  "BuildIndex enqueueErr taskErr req i =
     (let (hasIndex, indexBuildID) = HasSameReq (metaTable i) req
      in if hasIndex
         then (\<lparr>resp_Status = \<lparr>ErrorCode = Success, Reason = ''already have same index''\<rparr>,
                resp_IndexBuildID = indexBuildID\<rparr>, i)
         else case enqueueErr of
                Some e \<Rightarrow>
                  (\<lparr>resp_Status = \<lparr>ErrorCode = UnexpectedError, Reason = e\<rparr>,
                    resp_IndexBuildID = 0\<rparr>, i)
              | None \<Rightarrow>
                  (case IndexAddTask_run taskErr req i of
                     Inl e \<Rightarrow>
                       (\<lparr>resp_Status = \<lparr>ErrorCode = UnexpectedError, Reason = e\<rparr>,
                         resp_IndexBuildID = 0\<rparr>, i)
                   | Inr (bid, i') \<Rightarrow>
                       (\<lparr>resp_Status = \<lparr>ErrorCode = Success, Reason = []\<rparr>,
                         resp_IndexBuildID = bid\<rparr>,
                        i'\<lparr>assignChan := assignChan i' @ [[bid]]\<rparr>)))"

text \<open>
  \<open>GetTimeTickChannel\<close> of the index coordinator: a constant answer, whatever the state
  code.
\<close>

definition IndexCoord_GetTimeTickChannel :: "IndexCoord \<Rightarrow> Status \<times> string" where
  "IndexCoord_GetTimeTickChannel i = (\<lparr>ErrorCode = Success, Reason = []\<rparr>, [])"

text \<open>
  The body of \<open>assignmentTasksLoop\<close> for one build-id. \<open>CreateIndex\<close> is the RPC to the
  worker, by worker-id and request. Reading the state of a task that has no meta goes through
  a nil pointer. The error of \<open>UpdateVersion\<close> and of \<open>metaTable.BuildIndex\<close> is logged and
  dropped by the source.
\<close>

definition assignment_step ::
  "(UniqueID \<Rightarrow> CreateIndexRequest \<Rightarrow> RpcResult) \<Rightarrow> UniqueID \<Rightarrow> IndexCoord
     \<Rightarrow> error option \<times> IndexCoord" where
  "assignment_step CreateIndex indexBuildID i =
     (case GetIndexMeta (metaTable i) indexBuildID of
        None \<Rightarrow> (Some NilPointer, i)
      | Some m \<Rightarrow>
          if im_State m = Finished then (None, i)
          else
           (let i1 = i\<lparr>metaTable := UpdateVersion indexBuildID (metaTable i)\<rparr>
            in case PeekClient (nodeClients i1) of
                 None \<Rightarrow> (None, i1\<lparr>assignChan := assignChan i1 @ [[indexBuildID]]\<rparr>)
               | Some nodeID \<Rightarrow>
                  (let i2 = i1\<lparr>nodeTasks := assignTask nodeID indexBuildID (nodeTasks i1)\<rparr>;
                       req = \<lparr>ci_IndexBuildID = indexBuildID,
                              ci_IndexName = req_IndexName (Req m),
                              ci_IndexID = req_IndexID (Req m),
                              ci_Version = im_Version m + 1,
                              ci_MetaPath = ''/indexes/'' @ show_int indexBuildID,
                              ci_DataPaths = req_DataPaths (Req m),
                              ci_TypeParams = req_TypeParams (Req m),
                              ci_IndexParams = req_IndexParams (Req m)\<rparr>
                   in (case CreateIndex nodeID req of
                         RpcError err \<Rightarrow> (None, i2)
                       | RpcStatus resp \<Rightarrow>
                           if ErrorCode resp \<noteq> Success then (None, i2)
                           else (None,
                                 i2\<lparr>metaTable := metaTable_BuildIndex indexBuildID nodeID (metaTable i2),
                                    nodeClients := IncPriority nodeID 1 (nodeClients i2)\<rparr>)))))"

fun assignment_ids_loop ::
  "(UniqueID \<Rightarrow> CreateIndexRequest \<Rightarrow> RpcResult) \<Rightarrow> UniqueID list \<Rightarrow> IndexCoord
     \<Rightarrow> error option \<times> IndexCoord" where
  "assignment_ids_loop CreateIndex [] i = (None, i)"
| "assignment_ids_loop CreateIndex (indexBuildID # rest) i =
     (case assignment_step CreateIndex indexBuildID i of
        (Some e, i') \<Rightarrow> (Some e, i')
      | (None, i') \<Rightarrow> assignment_ids_loop CreateIndex rest i')"

text \<open>
  One turn of \<open>assignmentTasksLoop\<close>: take a slice of build-ids off the assignment channel
  and run the body on each. With nothing on the channel the loop waits (\<open>None\<close>).
\<close>

definition assignmentTasksLoop_turn ::
  "(UniqueID \<Rightarrow> CreateIndexRequest \<Rightarrow> RpcResult) \<Rightarrow> IndexCoord
     \<Rightarrow> (error option \<times> IndexCoord) option" where
  "assignmentTasksLoop_turn CreateIndex i =
     (case assignChan i of
        [] \<Rightarrow> None
      | indexBuildIDs # rest \<Rightarrow>
          Some (assignment_ids_loop CreateIndex indexBuildIDs (i\<lparr>assignChan := rest\<rparr>)))"

text \<open>One turn of \<open>watchNodeLoop\<close>, for one session event of a worker.\<close>

datatype SessionEventType = SessionAddEvent | SessionDelEvent

definition watchNodeLoop_turn :: "SessionEventType \<Rightarrow> UniqueID \<Rightarrow> IndexCoord \<Rightarrow> IndexCoord" where
  "watchNodeLoop_turn eventType serverID i =
     (case eventType of
        SessionAddEvent \<Rightarrow> i
      | SessionDelEvent \<Rightarrow>
          let i1 = removeNode serverID i;
              indexBuildIDs = getTasksByNodeID (nodeTasks i1) serverID;
              i2 = i1\<lparr>assignChan := assignChan i1 @ [indexBuildIDs]\<rparr>
          in i2\<lparr>nodeTasks := nodeTasks_delete serverID (nodeTasks i2)\<rparr>)"

section \<open>Root coordinator (package rootcoord, type Core)\<close>

text \<open>
  \<open>c.MetaTable.client\<close> is a snapshot key-value store of strings: \<open>Load\<close> fails for a key
  that is not there, and every operation fails when the store cannot be reached
  (\<open>snap_down\<close>).
\<close>

record SnapShotKV =
  snap_store :: "string \<rightharpoonup> string"
  snap_down :: bool

definition snap_Load :: "SnapShotKV \<Rightarrow> string \<Rightarrow> error + string" where
  "snap_Load k key =
     (if snap_down k then Inl KvError
      else case snap_store k key of None \<Rightarrow> Inl KeyNotFound | Some v \<Rightarrow> Inr v)"

definition snap_Save :: "string \<Rightarrow> string \<Rightarrow> SnapShotKV \<Rightarrow> error option \<times> SnapShotKV" where
  "snap_Save key v k =
     (if snap_down k then (Some KvError, k)
      else (None, k\<lparr>snap_store := (snap_store k)(key \<mapsto> v)\<rparr>))"

text \<open>
  Modelled from the spec: the keys \<open>DDMsgSendPrefix\<close> and \<open>DDOperationPrefix\<close> and the four
  type tags of a \<open>DdOperation\<close> are constants declared outside the sources at hand. The keys
  are the specification's DDL replay slot; the tags name the four DDL operations.
\<close>

definition DDOperationPrefix :: string where
  "DDOperationPrefix = ''/meta/dd-op''"

definition DDMsgSendPrefix :: string where
  "DDMsgSendPrefix = ''/meta/dd-sent''"

definition CreateCollectionDDType :: string where
  "CreateCollectionDDType = ''CreateCollection''"

definition DropCollectionDDType :: string where
  "DropCollectionDDType = ''DropCollection''"

definition CreatePartitionDDType :: string where
  "CreatePartitionDDType = ''CreatePartition''"

definition DropPartitionDDType :: string where
  "DropPartitionDDType = ''DropPartition''"

record DdOperation =
  Body :: string
  Type :: string

text \<open>
  The four DDL requests (\<open>internalpb.CreateCollectionRequest\<close> and its siblings) are one
  record, tagged by the kind of message they are sent as. \<open>dd_Base\<close> is the timestamp of the
  request's \<open>Base\<close> header, a pointer that the send functions read without a nil check.
\<close>

datatype DdMsgKind = CreateCollectionMsg | DropCollectionMsg | CreatePartitionMsg | DropPartitionMsg

record DdRequest =
  dd_Base :: "nat option"
  dd_DbName :: string
  dd_CollectionName :: string
  dd_PartitionName :: string

record DdMsg =
  msg_Kind :: DdMsgKind
  msg_Request :: DdRequest
  msg_BeginTimestamp :: nat
  msg_EndTimestamp :: nat
  msg_Channels :: "string list"

record InvalidateCollMetaCacheRequest =
  inv_Timestamp :: nat
  inv_DbName :: string
  inv_CollectionName :: string

record FieldIndexInfo =
  FiledID :: UniqueID
  fi_IndexID :: UniqueID

record CollectionInfo =
  coll_ID :: UniqueID
  PhysicalChannelNames :: "string list"
  FieldIndexes :: "FieldIndexInfo list"

text \<open>
  Modelled from the spec: the root coordinator's \<open>metaTable\<close> with \<open>GetCollectionByName\<close>,
  the \<open>dmlChannels\<close> with \<open>BroadcastAll\<close> and the \<open>proxyClientManager\<close> are declared
  outside the sources at hand. The collections are looked up by name; a broadcast puts the
  message on the given physical channels, recorded in \<open>broadcast\<close>, and fails when the
  broker does not take it (\<open>broker_down\<close>); a cache invalidation sent to the proxies is
  recorded in \<open>invalidated\<close>.
\<close>

record Core =
  core_stateCode :: StateCode
  meta_client :: SnapShotKV
  collName2Info :: "string \<rightharpoonup> CollectionInfo"
  broadcast :: "DdMsg list"
  broker_down :: bool
  invalidated :: "InvalidateCollMetaCacheRequest list"

definition GetCollectionByName :: "Core \<Rightarrow> string \<Rightarrow> error + CollectionInfo" where
  "GetCollectionByName c collectionName =
     (case collName2Info c collectionName of
        None \<Rightarrow> Inl CollectionNotFound
      | Some collInfo \<Rightarrow> Inr collInfo)"

definition BroadcastAll :: "string list \<Rightarrow> DdMsg \<Rightarrow> Core \<Rightarrow> error option \<times> Core" where
  "BroadcastAll channelNames msg c =
     (if broker_down c then (Some BroadcastError, c)
      else (None, c\<lparr>broadcast := broadcast c @ [msg\<lparr>msg_Channels := channelNames\<rparr>]\<rparr>))"

text \<open>
  The four send functions that \<open>setMsgStreams\<close> installs differ in the message type only:
  the message is stamped with \<open>req.Base.Timestamp\<close> and broadcast on the given channels.
\<close>

definition SendDdReq :: "DdMsgKind \<Rightarrow> DdRequest \<Rightarrow> string list \<Rightarrow> Core \<Rightarrow> error option \<times> Core" where
  "SendDdReq kind req channelNames c =
     (case dd_Base req of
        None \<Rightarrow> (Some NilPointer, c)
      | Some ts \<Rightarrow>
          BroadcastAll channelNames
            \<lparr>msg_Kind = kind, msg_Request = req, msg_BeginTimestamp = ts,
             msg_EndTimestamp = ts, msg_Channels = []\<rparr> c)"

definition InvalidateCollectionMetaCache :: "DdRequest \<Rightarrow> Core \<Rightarrow> error option \<times> Core" where
  "InvalidateCollectionMetaCache ddReq c =
     (case dd_Base ddReq of
        None \<Rightarrow> (Some NilPointer, c)
      | Some ts \<Rightarrow>
          (None, c\<lparr>invalidated := invalidated c @
                   [\<lparr>inv_Timestamp = ts, inv_DbName = dd_DbName ddReq,
                     inv_CollectionName = dd_CollectionName ddReq\<rparr>]\<rparr>))"

definition setDdMsgSendFlag :: "bool \<Rightarrow> Core \<Rightarrow> error option \<times> Core" where
  "setDdMsgSendFlag b c =
     (case snap_Load (meta_client c) DDMsgSendPrefix of
        Inl err \<Rightarrow> (Some err, c)
      | Inr flag \<Rightarrow>
          if (b \<and> flag = ''true'') \<or> (\<not> b \<and> flag = ''false'') then (None, c)
          else if b
          then (let (err, k) = snap_Save DDMsgSendPrefix ''true'' (meta_client c)
                in (err, c\<lparr>meta_client := k\<rparr>))
          else (let (err, k) = snap_Save DDMsgSendPrefix ''false'' (meta_client c)
                in (err, c\<lparr>meta_client := k\<rparr>)))"

text \<open>
  One case of the \<open>switch\<close> in \<open>reSendDdMsg\<close>: decode the request, resolve the collection
  by name, send on its physical channels and, for every type but CreateCollection, tell the
  proxies to drop their cached meta of the collection. \<open>unmarshalText\<close> is
  \<open>proto.UnmarshalText\<close> into the request type of the case.
\<close>

definition resend_case ::
  "(DdMsgKind \<Rightarrow> string \<Rightarrow> DdRequest option) \<Rightarrow> DdMsgKind \<Rightarrow> bool \<Rightarrow> DdOperation \<Rightarrow> Core
     \<Rightarrow> error option \<times> Core" where
  "resend_case unmarshalText kind invalidate ddOp c =
     (case unmarshalText kind (Body ddOp) of
        None \<Rightarrow> (Some UnmarshalError, c)
      | Some ddReq \<Rightarrow>
          (case GetCollectionByName c (dd_CollectionName ddReq) of
             Inl err \<Rightarrow> (Some err, c)
           | Inr collInfo \<Rightarrow>
               (case SendDdReq kind ddReq (PhysicalChannelNames collInfo) c of
                  (Some err, c1) \<Rightarrow> (Some err, c1)
                | (None, c1) \<Rightarrow>
                    if invalidate then InvalidateCollectionMetaCache ddReq c1 else (None, c1))))"

text \<open>
  \<open>reSendDdMsg\<close>. \<open>unmarshalJSON\<close> is \<open>json.Unmarshal\<close> into a \<open>DdOperation\<close>. The
  function returns its \<open>error\<close> and the coordinator as it leaves it.
\<close>

definition reSendDdMsg ::
  "(string \<Rightarrow> DdOperation option) \<Rightarrow> (DdMsgKind \<Rightarrow> string \<Rightarrow> DdRequest option) \<Rightarrow> Core
     \<Rightarrow> error option \<times> Core" where
  "reSendDdMsg unmarshalJSON unmarshalText c =
     (case snap_Load (meta_client c) DDMsgSendPrefix of
        Inl err \<Rightarrow> (None, c)
      | Inr flag \<Rightarrow>
          if flag = ''true'' then (None, c)
          else
           (case snap_Load (meta_client c) DDOperationPrefix of
              Inl err \<Rightarrow> (None, c)
            | Inr ddOpStr \<Rightarrow>
               (case unmarshalJSON ddOpStr of
                  None \<Rightarrow> (Some UnmarshalError, c)
                | Some ddOp \<Rightarrow>
                   (case (if Type ddOp = CreateCollectionDDType
                          then resend_case unmarshalText CreateCollectionMsg False ddOp c
                          else if Type ddOp = DropCollectionDDType
                          then resend_case unmarshalText DropCollectionMsg True ddOp c
                          else if Type ddOp = CreatePartitionDDType
                          then resend_case unmarshalText CreatePartitionMsg True ddOp c
                          else if Type ddOp = DropPartitionDDType
                          then resend_case unmarshalText DropPartitionMsg True ddOp c
                          else (Some (InvalidDdOperation (Type ddOp)), c)) of
                      (Some err, c1) \<Rightarrow> (Some err, c1)
                    | (None, c1) \<Rightarrow> setDdMsgSendFlag True c1))))"

subsection \<open>The state-code check of the RPCs\<close>

fun StateCode_name :: "StateCode \<Rightarrow> string" where
  "StateCode_name Initializing = ''Initializing''"
| "StateCode_name Healthy = ''Healthy''"
| "StateCode_name Abnormal = ''Abnormal''"

text \<open>
  Modelled from the spec: the protobuf messages of the requests and responses and the enum
  \<open>commonpb.MsgType\<close> are declared outside the sources at hand. Every message carries a
  header \<open>{type, msg-id, timestamp, source-id}\<close>; a request holds it in the pointer \<open>Base\<close>,
  which the RPCs read without a nil check, and the rest of the request is its \<open>Payload\<close>
  (the pointer to the request itself is there, as it is for a call that arrives over gRPC). Of
  the message types the RPCs name two; the number and the name of a type (the \<open>%d\<close> of a
  type and the table \<open>MsgType_name\<close>) are parameters of the RPCs that print them.
\<close>

datatype MsgType = MsgType_TimeTick | MsgType_SegmentFlushDone | MsgType_Other int

record MsgBase =
  mb_MsgType :: MsgType
  mb_MsgID :: UniqueID
  mb_Timestamp :: nat
  mb_SourceID :: UniqueID

record 'a Request =
  Base :: "MsgBase option"
  Payload :: 'a

text \<open>
  Modelled from the spec: the package \<open>metrics\<close> is outside the sources at hand. A counter
  vector counts per counter and pair of labels; \<open>Inc\<close> adds one.
\<close>

type_synonym Metrics = "string \<times> string \<times> string \<Rightarrow> nat"

definition Inc :: "string \<Rightarrow> string \<Rightarrow> string \<Rightarrow> Metrics \<Rightarrow> Metrics" where
  "Inc counter label1 label2 mt =
     mt((counter, label1, label2) := mt (counter, label1, label2) + 1)"

definition MetricRequestsTotal :: string where
  "MetricRequestsTotal = ''total''"

definition MetricRequestsSuccess :: string where
  "MetricRequestsSuccess = ''success''"

definition metricProxy :: "int \<Rightarrow> string" where
  "metricProxy v = ''client_'' @ show_int v"

text \<open>
  Fourteen RPCs of the root coordinator have one shape: count the request in the RPC's
  counter, under the label of the proxy it comes from (\<open>in.Base.SourceID\<close>, read before
  anything else); check the state code; build the task and run it with \<open>executeTask\<close>; on
  its error answer UnexpectedError with the RPC's text before the error; else count the
  success and answer. \<open>guarded_task\<close> is that shape. Its parameters are what the fourteen
  differ in: the name of the counter, the text before "state code = " in the reason of the
  refusal, the text before the error of the task, how a response is made of a status and of
  what the task produced (\<open>None\<close> where the source leaves the other fields of the response
  at their zero values), and the status of a success. \<open>executeTask\<close> with the task of the
  RPC is declared outside the sources at hand and is a parameter: it takes the request and the
  coordinator and gives the text of the task's error or what the task produced, and the
  coordinator after the task.
\<close>

definition guarded_task ::
  "string \<Rightarrow> string \<Rightarrow> string \<Rightarrow> (Status \<Rightarrow> 'out option \<Rightarrow> 'resp) \<Rightarrow> ('out \<Rightarrow> Status)
     \<Rightarrow> ('rq Request \<Rightarrow> Core \<Rightarrow> (string + 'out) \<times> Core)
     \<Rightarrow> 'rq Request \<Rightarrow> Core \<Rightarrow> Metrics \<Rightarrow> (error + 'resp) \<times> Core \<times> Metrics" where
  "guarded_task counter refusal failure response success executeTask req c mt =
     (case Base req of
        None \<Rightarrow> (Inl NilPointer, c, mt)
      | Some b \<Rightarrow>
          (let mt1 = Inc counter (metricProxy (mb_SourceID b)) MetricRequestsTotal mt;
               code = core_stateCode c
           in if code \<noteq> Healthy
              then (Inr (response \<lparr>ErrorCode = UnexpectedError,
                                    Reason = refusal @ ''state code = '' @ StateCode_name code\<rparr> None),
                    c, mt1)
              else (case executeTask req c of
                      (Inl err, c1) \<Rightarrow>
                        (Inr (response \<lparr>ErrorCode = UnexpectedError, Reason = failure @ err\<rparr> None),
                         c1, mt1)
                    | (Inr out, c1) \<Rightarrow>
                        (Inr (response (success out) (Some out)), c1,
                         Inc counter (metricProxy (mb_SourceID b)) MetricRequestsSuccess mt1))))"

text \<open>The three kinds of response: a bare status, a status with a truth value, a status with
  the fields that the task fills in.\<close>

record BoolResponse =
  bool_Status :: Status
  bool_Value :: bool

record 'p TaskResponse =
  rsp_Status :: Status
  rsp_Fields :: "'p option"

definition status_response :: "Status \<Rightarrow> unit option \<Rightarrow> Status" where
  "status_response st out = st"

definition bool_response :: "Status \<Rightarrow> bool option \<Rightarrow> BoolResponse" where
  "bool_response st out =
     \<lparr>bool_Status = st, bool_Value = (case out of None \<Rightarrow> False | Some v \<Rightarrow> v)\<rparr>"

definition task_response :: "Status \<Rightarrow> 'p option \<Rightarrow> 'p TaskResponse" where
  "task_response st out = \<lparr>rsp_Status = st, rsp_Fields = out\<rparr>"

definition status_Success :: "'out \<Rightarrow> Status" where
  "status_Success out = \<lparr>ErrorCode = Success, Reason = []\<rparr>"

definition CreateCollection ::
  "('rq Request \<Rightarrow> Core \<Rightarrow> (string + unit) \<times> Core)
     \<Rightarrow> 'rq Request \<Rightarrow> Core \<Rightarrow> Metrics \<Rightarrow> (error + Status) \<times> Core \<times> Metrics" where
  "CreateCollection =
     guarded_task ''RootCoordCreateCollectionCounter'' [] ''Create collection failed: ''
       status_response status_Success"

definition DropCollection ::
  "('rq Request \<Rightarrow> Core \<Rightarrow> (string + unit) \<times> Core)
     \<Rightarrow> 'rq Request \<Rightarrow> Core \<Rightarrow> Metrics \<Rightarrow> (error + Status) \<times> Core \<times> Metrics" where
  "DropCollection =
     guarded_task ''RootCoordDropCollectionCounter'' [] ''Drop collection failed: ''
       status_response status_Success"

definition HasCollection ::
  "('rq Request \<Rightarrow> Core \<Rightarrow> (string + bool) \<times> Core)
     \<Rightarrow> 'rq Request \<Rightarrow> Core \<Rightarrow> Metrics \<Rightarrow> (error + BoolResponse) \<times> Core \<times> Metrics" where
  "HasCollection =
     guarded_task ''RootCoordHasCollectionCounter'' [] ''Has collection failed: ''
       bool_response status_Success"

definition DescribeCollection ::
  "('rq Request \<Rightarrow> Core \<Rightarrow> (string + 'p) \<times> Core)
     \<Rightarrow> 'rq Request \<Rightarrow> Core \<Rightarrow> Metrics \<Rightarrow> (error + 'p TaskResponse) \<times> Core \<times> Metrics" where
  "DescribeCollection =
     guarded_task ''RootCoordDescribeCollectionCounter'' [] ''describe collection failed: ''
       task_response status_Success"

definition ShowCollections ::
  "('rq Request \<Rightarrow> Core \<Rightarrow> (string + 'p) \<times> Core)
     \<Rightarrow> 'rq Request \<Rightarrow> Core \<Rightarrow> Metrics \<Rightarrow> (error + 'p TaskResponse) \<times> Core \<times> Metrics" where
  "ShowCollections =
     guarded_task ''RootCoordShowCollectionsCounter'' [] ''ShowCollections failed: ''
       task_response status_Success"

definition CreatePartition ::
  "('rq Request \<Rightarrow> Core \<Rightarrow> (string + unit) \<times> Core)
     \<Rightarrow> 'rq Request \<Rightarrow> Core \<Rightarrow> Metrics \<Rightarrow> (error + Status) \<times> Core \<times> Metrics" where
  "CreatePartition =
     guarded_task ''RootCoordCreatePartitionCounter'' [] ''create partition failed: ''
       status_response status_Success"

definition DropPartition ::
  "('rq Request \<Rightarrow> Core \<Rightarrow> (string + unit) \<times> Core)
     \<Rightarrow> 'rq Request \<Rightarrow> Core \<Rightarrow> Metrics \<Rightarrow> (error + Status) \<times> Core \<times> Metrics" where
  "DropPartition =
     guarded_task ''RootCoordDropPartitionCounter'' [] ''DropPartition failed: ''
       status_response status_Success"

definition HasPartition ::
  "('rq Request \<Rightarrow> Core \<Rightarrow> (string + bool) \<times> Core)
     \<Rightarrow> 'rq Request \<Rightarrow> Core \<Rightarrow> Metrics \<Rightarrow> (error + BoolResponse) \<times> Core \<times> Metrics" where
  "HasPartition =
     guarded_task ''RootCoordHasPartitionCounter'' [] ''HasPartition failed: ''
       bool_response status_Success"

text \<open>
  \<open>ShowPartitions\<close> words its refusal differently, and puts nothing before the error of the
  task.
\<close>

definition ShowPartitions ::
  "('rq Request \<Rightarrow> Core \<Rightarrow> (string + 'p) \<times> Core)
     \<Rightarrow> 'rq Request \<Rightarrow> Core \<Rightarrow> Metrics \<Rightarrow> (error + 'p TaskResponse) \<times> Core \<times> Metrics" where
  "ShowPartitions =
     guarded_task ''RootCoordShowPartitionsCounter'' ''rootcoord is not healthy, '' []
       task_response status_Success"

definition CreateIndex ::
  "('rq Request \<Rightarrow> Core \<Rightarrow> (string + unit) \<times> Core)
     \<Rightarrow> 'rq Request \<Rightarrow> Core \<Rightarrow> Metrics \<Rightarrow> (error + Status) \<times> Core \<times> Metrics" where
  "CreateIndex =
     guarded_task ''RootCoordCreateIndexCounter'' [] ''CreateIndex failed, error = ''
       status_response status_Success"

text \<open>
  \<open>DescribeIndex\<close>: the task produces the list of index descriptions; with an empty list the
  answer of a run that went through is IndexNotExist.
\<close>

definition DescribeIndex ::
  "('rq Request \<Rightarrow> Core \<Rightarrow> (string + 'd list) \<times> Core)
     \<Rightarrow> 'rq Request \<Rightarrow> Core \<Rightarrow> Metrics \<Rightarrow> (error + 'd list TaskResponse) \<times> Core \<times> Metrics" where
  "DescribeIndex =
     guarded_task ''RootCoordDescribeIndexCounter'' [] ''DescribeIndex failed, error = ''
       task_response
       (\<lambda>IndexDescriptions.
          if length IndexDescriptions = 0
          then \<lparr>ErrorCode = IndexNotExist, Reason = ''index not exist''\<rparr>
          else \<lparr>ErrorCode = Success, Reason = []\<rparr>)"

definition DropIndex ::
  "('rq Request \<Rightarrow> Core \<Rightarrow> (string + unit) \<times> Core)
     \<Rightarrow> 'rq Request \<Rightarrow> Core \<Rightarrow> Metrics \<Rightarrow> (error + Status) \<times> Core \<times> Metrics" where
  "DropIndex =
     guarded_task ''RootCoordDropIndexCounter'' [] ''DropIndex failed, error = ''
       status_response status_Success"

definition DescribeSegment ::
  "('rq Request \<Rightarrow> Core \<Rightarrow> (string + 'p) \<times> Core)
     \<Rightarrow> 'rq Request \<Rightarrow> Core \<Rightarrow> Metrics \<Rightarrow> (error + 'p TaskResponse) \<times> Core \<times> Metrics" where
  "DescribeSegment =
     guarded_task ''RootCoordDescribeSegmentCounter'' [] ''DescribeSegment failed, error = ''
       task_response status_Success"

definition ShowSegments ::
  "('rq Request \<Rightarrow> Core \<Rightarrow> (string + 'p) \<times> Core)
     \<Rightarrow> 'rq Request \<Rightarrow> Core \<Rightarrow> Metrics \<Rightarrow> (error + 'p TaskResponse) \<times> Core \<times> Metrics" where
  "ShowSegments =
     guarded_task ''RootCoordShowSegmentsCounter'' [] ''ShowSegments failed, error: ''
       task_response status_Success"

record AllocTimestampResponse =
  ats_Status :: Status
  ats_Timestamp :: nat
  ats_Count :: nat

record AllocIDResponse =
  aid_Status :: Status
  aid_ID :: UniqueID
  aid_Count :: nat

text \<open>
  \<open>AllocTimestamp\<close> and \<open>AllocID\<close>. The payload of the request is its \<open>Count\<close>. The
  allocators are fields of function type, here the parameters \<open>TSOAllocator\<close> and
  \<open>IDAllocator\<close>: they take the count and the coordinator, and return the allocation or the
  text of an error, and the coordinator after the call. The header of the request is read
  only to log the failure of the allocator (\<open>in.Base.MsgID\<close>).
\<close>

definition AllocTimestamp ::
  "(nat \<Rightarrow> Core \<Rightarrow> (string + nat) \<times> Core) \<Rightarrow> nat Request \<Rightarrow> Core
     \<Rightarrow> (error + AllocTimestampResponse) \<times> Core" where
  "AllocTimestamp TSOAllocator req c =
     (let code = core_stateCode c
      in if code \<noteq> Healthy
         then (Inr \<lparr>ats_Status = \<lparr>ErrorCode = UnexpectedError,
                                   Reason = ''state code = '' @ StateCode_name code\<rparr>,
                    ats_Timestamp = 0, ats_Count = 0\<rparr>, c)
         else case TSOAllocator (Payload req) c of
                (Inl err, c1) \<Rightarrow>
                  (case Base req of
                     None \<Rightarrow> (Inl NilPointer, c1)
                   | Some b \<Rightarrow>
                       (Inr \<lparr>ats_Status = \<lparr>ErrorCode = UnexpectedError,
                                            Reason = ''AllocTimestamp failed: '' @ err\<rparr>,
                             ats_Timestamp = 0, ats_Count = 0\<rparr>, c1))
              | (Inr ts, c1) \<Rightarrow>
                  (Inr \<lparr>ats_Status = \<lparr>ErrorCode = Success, Reason = []\<rparr>,
                        ats_Timestamp = ts, ats_Count = Payload req\<rparr>, c1))"

definition AllocID ::
  "(nat \<Rightarrow> Core \<Rightarrow> (string + UniqueID \<times> UniqueID) \<times> Core) \<Rightarrow> nat Request \<Rightarrow> Core
     \<Rightarrow> (error + AllocIDResponse) \<times> Core" where
  "AllocID IDAllocator req c =
     (let code = core_stateCode c
      in if code \<noteq> Healthy
         then (Inr \<lparr>aid_Status = \<lparr>ErrorCode = UnexpectedError,
                                   Reason = ''state code = '' @ StateCode_name code\<rparr>,
                    aid_ID = 0, aid_Count = 0\<rparr>, c)
         else case IDAllocator (Payload req) c of
                (Inl err, c1) \<Rightarrow>
                  (case Base req of
                     None \<Rightarrow> (Inl NilPointer, c1)
                   | Some b \<Rightarrow>
                       (Inr \<lparr>aid_Status = \<lparr>ErrorCode = UnexpectedError,
                                            Reason = ''AllocID failed: '' @ err\<rparr>,
                             aid_ID = 0, aid_Count = Payload req\<rparr>, c1))
              | (Inr (start, e), c1) \<Rightarrow>
                  (Inr \<lparr>aid_Status = \<lparr>ErrorCode = Success, Reason = []\<rparr>,
                        aid_ID = start, aid_Count = Payload req\<rparr>, c1))"

text \<open>
  \<open>UpdateChannelTimeTick\<close>: after the check of the state code, the type of the message is
  read through \<open>in.Base\<close>; a message that is not a time tick is refused with its type
  number; else the message goes to \<open>chanTimeTick.UpdateTimeTick\<close>, declared outside the
  sources at hand and here the parameter \<open>UpdateTimeTick\<close>.
\<close>

definition UpdateChannelTimeTick ::
  "(MsgType \<Rightarrow> int) \<Rightarrow> ('rq Request \<Rightarrow> Core \<Rightarrow> string option \<times> Core) \<Rightarrow> 'rq Request \<Rightarrow> Core
     \<Rightarrow> (error + Status) \<times> Core" where
  "UpdateChannelTimeTick MsgType_value UpdateTimeTick req c =
     (let code = core_stateCode c
      in if code \<noteq> Healthy
         then (Inr \<lparr>ErrorCode = UnexpectedError,
                    Reason = ''state code = '' @ StateCode_name code\<rparr>, c)
         else case Base req of
                None \<Rightarrow> (Inl NilPointer, c)
              | Some b \<Rightarrow>
                  if mb_MsgType b \<noteq> MsgType_TimeTick
                  then (Inr \<lparr>ErrorCode = UnexpectedError,
                             Reason = ''UpdateChannelTimeTick receive invalid message ''
                                        @ show_int (MsgType_value (mb_MsgType b))\<rparr>, c)
                  else (case UpdateTimeTick req c of
                          (Some err, c1) \<Rightarrow> (Inr \<lparr>ErrorCode = UnexpectedError, Reason = err\<rparr>, c1)
                        | (None, c1) \<Rightarrow> (Inr \<lparr>ErrorCode = Success, Reason = []\<rparr>, c1)))"

text \<open>
  \<open>ReleaseDQLMessageStream\<close>: after the check, the call is handed to the proxy client
  manager, here the parameter \<open>release\<close>.
\<close>

definition ReleaseDQLMessageStream :: "('r \<Rightarrow> Core \<Rightarrow> Status \<times> Core) \<Rightarrow> 'r \<Rightarrow> Core \<Rightarrow> Status \<times> Core" where
  "ReleaseDQLMessageStream release req c =
     (let code = core_stateCode c
      in if code \<noteq> Healthy
         then (\<lparr>ErrorCode = UnexpectedError, Reason = ''state code = '' @ StateCode_name code\<rparr>, c)
         else release req c)"

text \<open>
  \<open>Core.BuildIndex\<close>, which \<open>SegmentFlushCompleted\<close> calls for every indexed field. The
  calls to the other coordinators are fields of function type, and \<open>IsSegmentIndexed\<close> is a
  method of the meta table declared outside the sources at hand: they are the fields of
  \<open>Services\<close>, with the threshold \<open>Params.MinSegmentSizeToEnableIndex\<close>. The function
  returns the build-id (0 when no build was asked for) or the text of the error.
\<close>

record FieldSchema =
  fs_FieldID :: UniqueID
  fs_Name :: string

record IndexInfo =
  ii_IndexName :: string
  ii_IndexID :: UniqueID
  ii_IndexParams :: "(string \<times> string) list"

record Services =
  IsSegmentIndexed :: "Core \<Rightarrow> UniqueID \<Rightarrow> FieldSchema \<Rightarrow> (string \<times> string) list \<Rightarrow> bool"
  CallGetNumRowsService :: "UniqueID \<Rightarrow> bool \<Rightarrow> string + int"
  CallGetBinlogFilePathsService :: "UniqueID \<Rightarrow> UniqueID \<Rightarrow> string + string list"
  CallBuildIndexService :: "string list \<Rightarrow> FieldSchema \<Rightarrow> IndexInfo \<Rightarrow> string + UniqueID"
  MinSegmentSizeToEnableIndex :: int

definition Core_BuildIndex ::
  "Services \<Rightarrow> Core \<Rightarrow> UniqueID \<Rightarrow> FieldSchema \<Rightarrow> IndexInfo \<Rightarrow> bool \<Rightarrow> string + UniqueID" where
  "Core_BuildIndex svc c segID field idxInfo isFlush =
     (if IsSegmentIndexed svc c segID field (ii_IndexParams idxInfo) then Inr 0
      else case CallGetNumRowsService svc segID isFlush of
             Inl err \<Rightarrow> Inl err
           | Inr rows \<Rightarrow>
               if rows < MinSegmentSizeToEnableIndex svc then Inr 0
               else (case CallGetBinlogFilePathsService svc segID (fs_FieldID field) of
                       Inl err \<Rightarrow> Inl err
                     | Inr binlogs \<Rightarrow> CallBuildIndexService svc binlogs field idxInfo))"

text \<open>
  \<open>SegmentFlushCompleted\<close>. After the check of the state code and of the message type, the
  collection of the segment is looked up and, for each of its indexed fields, an index build
  is asked for and, when a build-id comes back, recorded. The methods of the meta table
  (\<open>GetCollectionByID\<close>, \<open>GetIndexByID\<close>, \<open>AddIndex\<close>) and \<open>GetFieldSchemaByID\<close> are
  declared outside the sources at hand and are the fields of \<open>MetaAccess\<close>. The payload of
  the request is the pointer \<open>in.Segment\<close>, whose \<open>CollectionID\<close> is read without a nil
  check.
\<close>

record SegmentIndexInfo =
  sii_CollectionID :: UniqueID
  sii_PartitionID :: UniqueID
  sii_SegmentID :: UniqueID
  sii_FieldID :: UniqueID
  sii_IndexID :: UniqueID
  sii_BuildID :: UniqueID
  sii_EnableIndex :: bool

record MetaAccess =
  GetCollectionByID :: "Core \<Rightarrow> UniqueID \<Rightarrow> string + CollectionInfo"
  GetFieldSchemaByID :: "CollectionInfo \<Rightarrow> UniqueID \<Rightarrow> FieldSchema option"
  GetIndexByID :: "Core \<Rightarrow> UniqueID \<Rightarrow> IndexInfo option"
  AddIndex :: "SegmentIndexInfo \<Rightarrow> Core \<Rightarrow> Core"

fun fieldIndexes_loop ::
  "Services \<Rightarrow> MetaAccess \<Rightarrow> CollectionInfo \<Rightarrow> SegmentInfo \<Rightarrow> FieldIndexInfo list \<Rightarrow> Core \<Rightarrow> Core" where
  "fieldIndexes_loop svc mta coll seg [] c = c"
| "fieldIndexes_loop svc mta coll seg (f # rest) c =
     (case GetFieldSchemaByID mta coll (FiledID f) of
        None \<Rightarrow> fieldIndexes_loop svc mta coll seg rest c
      | Some fieldSch \<Rightarrow>
          (case GetIndexByID mta c (fi_IndexID f) of
             None \<Rightarrow> fieldIndexes_loop svc mta coll seg rest c
           | Some idxInfo \<Rightarrow>
               (case Core_BuildIndex svc c (ID seg) fieldSch idxInfo True of
                  Inl err \<Rightarrow> fieldIndexes_loop svc mta coll seg rest c
                | Inr buildID \<Rightarrow>
                    if buildID = 0 then fieldIndexes_loop svc mta coll seg rest c
                    else fieldIndexes_loop svc mta coll seg rest
                           (AddIndex mta
                              \<lparr>sii_CollectionID = CollectionID seg, sii_PartitionID = PartitionID seg,
                               sii_SegmentID = ID seg, sii_FieldID = fs_FieldID fieldSch,
                               sii_IndexID = ii_IndexID idxInfo, sii_BuildID = buildID,
                               sii_EnableIndex = True\<rparr> c))))"

definition SegmentFlushCompleted ::
  "(MsgType \<Rightarrow> string) \<Rightarrow> Services \<Rightarrow> MetaAccess \<Rightarrow> SegmentInfo option Request \<Rightarrow> Core
     \<Rightarrow> (error + Status) \<times> Core" where
  "SegmentFlushCompleted MsgType_name svc mta req c =
     (let code = core_stateCode c
      in if code \<noteq> Healthy
         then (Inr \<lparr>ErrorCode = UnexpectedError,
                    Reason = ''state code = '' @ StateCode_name code\<rparr>, c)
         else case Base req of
                None \<Rightarrow> (Inl NilPointer, c)
              | Some b \<Rightarrow>
                  if mb_MsgType b \<noteq> MsgType_SegmentFlushDone
                  then (Inr \<lparr>ErrorCode = UnexpectedError,
                             Reason = ''SegmentFlushDone with incorrect msgtype = ''
                                        @ MsgType_name (mb_MsgType b)\<rparr>, c)
                  else (case Payload req of
                          None \<Rightarrow> (Inl NilPointer, c)
                        | Some seg \<Rightarrow>
                            (case GetCollectionByID mta c (CollectionID seg) of
                               Inl err \<Rightarrow>
                                 (Inr \<lparr>ErrorCode = UnexpectedError,
                                       Reason = ''GetCollectionBySegmentID error = '' @ err\<rparr>, c)
                             | Inr coll \<Rightarrow>
                                 (Inr \<lparr>ErrorCode = Success, Reason = []\<rparr>,
                                  fieldIndexes_loop svc mta coll seg (FieldIndexes coll) c))))"

text \<open>
  Two RPCs of the root coordinator answer with a configured channel name and do not look at
  the state code.
\<close>

definition Core_GetTimeTickChannel :: "string \<Rightarrow> Core \<Rightarrow> Status \<times> string" where
  "Core_GetTimeTickChannel TimeTickChannel c =
     (\<lparr>ErrorCode = Success, Reason = []\<rparr>, TimeTickChannel)"

definition Core_GetStatisticsChannel :: "string \<Rightarrow> Core \<Rightarrow> Status \<times> string" where
  "Core_GetStatisticsChannel StatisticsChannel c =
     (\<lparr>ErrorCode = Success, Reason = []\<rparr>, StatisticsChannel)"

section \<open>Concrete states for the evaluations below\<close>

definition example_segment :: "UniqueID \<Rightarrow> SegmentState \<Rightarrow> SegmentInfo" where
  "example_segment i st =
     \<lparr>ID = i, CollectionID = 0, PartitionID = 0, InsertChannel = ''c1'', NumOfRows = 0,
      State = st, LastExpireTime = 0, StartPosition = None, DmlPosition = None\<rparr>"

definition example_meta :: "SegmentInfo list \<Rightarrow> meta" where
  "example_meta segs =
     \<lparr>client = \<lparr>kv_store = Map.empty, kv_down = False\<rparr>,
      segments = map (\<lambda>seg. (ID seg, seg)) segs\<rparr>"

definition example_node :: "int \<Rightarrow> ChannelStatus list \<Rightarrow> NodeInfo" where
  "example_node v chs = \<lparr>info = \<lparr>Address = ''localhost:21124'', Version = v, Channels = chs\<rparr>\<rparr>"

definition example_cluster :: "NodeInfo list \<Rightarrow> nat Cluster" where
  "example_cluster ns =
     \<lparr>nodes = map (\<lambda>n. (Version (info n), n)) ns, chanBuffer = [],
      kv = \<lparr>kv_store = Map.empty, kv_down = False\<rparr>, nodeEvents = []\<rparr>"

definition example_request :: "string list \<Rightarrow> BuildIndexRequest" where
  "example_request paths =
     \<lparr>req_IndexBuildID = 0, req_IndexName = ''idx'', req_IndexID = 7, req_DataPaths = paths,
      req_TypeParams = [(''dim'', ''8'')], req_IndexParams = [(''index_type'', ''IVF_FLAT'')]\<rparr>"

definition example_task :: "UniqueID \<Rightarrow> IndexState \<Rightarrow> BuildIndexRequest \<Rightarrow> IndexMeta" where
  "example_task bid st req =
     \<lparr>IndexBuildID = bid, im_State = st, Req = req, MarkDeleted = False, NodeID = 0, im_Version = 0\<rparr>"

definition example_coord :: "StateCode \<Rightarrow> IndexMeta list \<Rightarrow> UniqueID list \<Rightarrow> IndexCoord" where
  "example_coord code tasks workers =
     \<lparr>stateCode = code, metaTable = map (\<lambda>m. (IndexBuildID m, m)) tasks, assignChan = [],
      nodeClients = map (\<lambda>w. \<lparr>pq_key = w, pq_priority = 0\<rparr>) workers, nodeTasks = [],
      idAllocator = 100\<rparr>"

definition example_core :: "StateCode \<Rightarrow> (string \<times> string) list \<Rightarrow> Core" where
  "example_core code kvs =
     \<lparr>core_stateCode = code, meta_client = \<lparr>snap_store = map_of kvs, snap_down = False\<rparr>,
      collName2Info = [''coll'' \<mapsto> \<lparr>coll_ID = 1, PhysicalChannelNames = [''dml_0'', ''dml_1''],
                        FieldIndexes = []\<rparr>],
      broadcast = [], broker_down = False, invalidated = []\<rparr>"

definition example_base :: MsgBase where
  "example_base = \<lparr>mb_MsgType = MsgType_Other 0, mb_MsgID = 1, mb_Timestamp = 0, mb_SourceID = 7\<rparr>"



section \<open>Sequences of operations on the segment table\<close>

text \<open>
  The operations that write a segment's state or row count, as commands, and a run of a list
  of them; each command keeps the table its operation leaves, whatever error it returns. \<open>OpFlushCompleted\<close>
  carries the outcome of the call to the root coordinator.
\<close>

datatype MetaOp =
    OpSetState UniqueID SegmentState
  | OpSaveBinlogAndCheckPoints UniqueID bool "(string \<times> string) list" "CheckPoint list"
      "SegmentStartPosition list"
  | OpFlushCompleted UniqueID bool
  | OpSetRowCount UniqueID int

fun apply_op :: "MetaOp \<Rightarrow> meta \<Rightarrow> meta" where
  "apply_op (OpSetState segmentID st) m = snd (SetState segmentID st m)"
| "apply_op (OpSaveBinlogAndCheckPoints segID flushed binlogs checkpoints startPositions) m =
     snd (SaveBinlogAndCheckPoints segID flushed binlogs checkpoints startPositions m)"
| "apply_op (OpFlushCompleted segmentID ack) m = flushCompleted (\<lambda>segment. ack) segmentID m"
| "apply_op (OpSetRowCount segmentID rowCount) m = snd (SetRowCount segmentID rowCount m)"

fun run_ops :: "MetaOp list \<Rightarrow> meta \<Rightarrow> meta" where
  "run_ops [] m = m"
| "run_ops (x # ops) m = run_ops ops (apply_op x m)"

text \<open>
  \<open>op_forward m x\<close>: the state that the command \<open>x\<close> writes is not below the state the
  segment it writes to has in \<open>m\<close>; \<open>ops_forward\<close>: this holds at every step of a run.
\<close>

definition not_below :: "meta \<Rightarrow> UniqueID \<Rightarrow> SegmentState \<Rightarrow> bool" where
  "not_below m segmentID st =
     (case GetSegment m segmentID of
        None \<Rightarrow> True
      | Some segment \<Rightarrow> state_rank (State segment) \<le> state_rank st)"

fun op_forward :: "meta \<Rightarrow> MetaOp \<Rightarrow> bool" where
  "op_forward m (OpSetState segmentID st) = not_below m segmentID st"
| "op_forward m (OpSaveBinlogAndCheckPoints segID flushed binlogs checkpoints startPositions) =
     (flushed \<longrightarrow> not_below m segID Flushing)"
| "op_forward m (OpFlushCompleted segmentID ack) = (ack \<longrightarrow> not_below m segmentID Flushed)"
| "op_forward m (OpSetRowCount segmentID rowCount) = True"

fun ops_forward :: "meta \<Rightarrow> MetaOp list \<Rightarrow> bool" where
  "ops_forward m [] = True"
| "ops_forward m (x # ops) = (op_forward m x \<and> ops_forward (apply_op x m) ops)"

text \<open>
  The same for the row count: \<open>op_rows_forward m x\<close> says that every row count the command
  \<open>x\<close> carries (the argument of \<open>SetRowCount\<close>, the counts of the checkpoints) is not below
  the count that its segment has in \<open>m\<close>.
\<close>

definition rows_not_below :: "meta \<Rightarrow> UniqueID \<Rightarrow> int \<Rightarrow> bool" where
  "rows_not_below m segmentID rowCount =
     (case GetSegment m segmentID of
        None \<Rightarrow> True
      | Some segment \<Rightarrow> NumOfRows segment \<le> rowCount)"

fun op_rows_forward :: "meta \<Rightarrow> MetaOp \<Rightarrow> bool" where
  "op_rows_forward m (OpSetRowCount segmentID rowCount) = rows_not_below m segmentID rowCount"
| "op_rows_forward m (OpSaveBinlogAndCheckPoints segID flushed binlogs checkpoints startPositions) =
     list_all (\<lambda>cp. rows_not_below m (cp_SegmentID cp) (cp_NumOfRows cp)) checkpoints"
| "op_rows_forward m (OpSetState segmentID st) = True"
| "op_rows_forward m (OpFlushCompleted segmentID ack) = True"

fun ops_rows_forward :: "meta \<Rightarrow> MetaOp list \<Rightarrow> bool" where
  "ops_rows_forward m [] = True"
| "ops_rows_forward m (x # ops) = (op_rows_forward m x \<and> ops_rows_forward (apply_op x m) ops)"

definition example_position :: "nat list \<Rightarrow> nat \<Rightarrow> MsgPosition" where
  "example_position msgID ts = \<lparr>ChannelName = ''c1'', MsgID = msgID, MsgGroup = [], Timestamp = ts\<rparr>"

section \<open>Properties of the segment table\<close>

subsection \<open>Un-flushed segments\<close>

lemma unflushed_loop_filter:
  "unflushed_loop xs ret =
     ret @ filter (\<lambda>info. State info \<noteq> Flushing \<and> State info \<noteq> Flushed) xs"
  by (induction xs arbitrary: ret) simp_all

text \<open>
  C9. \<open>GetUnFlushedSegments\<close> returns exactly the segments of the table whose state is
  neither Flushing nor Flushed: every segment in state Growing, Sealed or Dropped is returned,
  and no segment in state Flushing or Flushed is.
\<close>

theorem GetUnFlushedSegments_exact:
  "GetUnFlushedSegments m =
     filter (\<lambda>info. State info \<noteq> Flushing \<and> State info \<noteq> Flushed)
       (SegmentsInfo_GetSegments (segments m))
   \<and> (\<forall>info \<in> set (SegmentsInfo_GetSegments (segments m)).
         State info \<in> {Growing, Sealed, Dropped} \<longrightarrow> info \<in> set (GetUnFlushedSegments m))
   \<and> (\<forall>info \<in> set (SegmentsInfo_GetSegments (segments m)).
         State info \<in> {Flushing, Flushed} \<longrightarrow> info \<notin> set (GetUnFlushedSegments m))"
  by (auto simp: GetUnFlushedSegments_def unflushed_loop_filter)

theorem GetUnFlushedSegments_exact_witness:
  "GetUnFlushedSegments
     (example_meta [example_segment 0 Growing, example_segment 1 Flushed,
                    example_segment 2 Dropped, example_segment 3 Sealed, example_segment 4 Flushing])
   = [example_segment 0 Growing, example_segment 2 Dropped, example_segment 3 Sealed]
   \<and> example_segment 2 Dropped \<in> set (GetUnFlushedSegments
     (example_meta [example_segment 0 Growing, example_segment 1 Flushed,
                    example_segment 2 Dropped, example_segment 3 Sealed, example_segment 4 Flushing]))
   \<and> example_segment 1 Flushed \<notin> set (GetUnFlushedSegments
     (example_meta [example_segment 0 Growing, example_segment 1 Flushed,
                    example_segment 2 Dropped, example_segment 3 Sealed, example_segment 4 Flushing]))"
  using GetUnFlushedSegments_exact
    [of "example_meta [example_segment 0 Growing, example_segment 1 Flushed,
                       example_segment 2 Dropped, example_segment 3 Sealed, example_segment 4 Flushing]"]
  by (simp add: example_meta_def example_segment_def SegmentsInfo_GetSegments_def)

section \<open>Properties of the data-node cluster\<close>

text \<open>
  C10. Handling an UnRegister event for a data-node that the cluster store does not hold
  changes nothing: the node store, the channel buffer, the persisted cluster state and the
  event channels of the nodes (so no watch request goes out) are as before.
\<close>

theorem handleUnRegister_unknown_node:
  "ClusterStore_GetNode (nodes c) (Version (info n)) = None \<Longrightarrow>
     handleUnRegister unregisterPolicy GetVChanPositions n c = c"
  by (simp add: handleUnRegister_def)

theorem handleUnRegister_unknown_node_witness:
  "ClusterStore_GetNode (nodes (example_cluster [example_node 1 []]))
       (Version (info (example_node 2 []))) = None
   \<and> handleUnRegister (\<lambda>ns n. ns) (\<lambda>vs. Inr [0]) (example_node 2 [])
         (example_cluster [example_node 1 []])
       = example_cluster [example_node 1 []]"
  using handleUnRegister_unknown_node
    [of "example_cluster [example_node 1 []]" "example_node 2 []" "\<lambda>ns n. ns" "\<lambda>vs. Inr [0]"]
  by (simp add: example_cluster_def example_node_def ClusterStore_GetNode_def)

text \<open>
  For contrast, a node that is known: the last node of the cluster leaves, its channel goes to
  the buffer as Uncomplete and the buffer is persisted.
\<close>

lemma handleUnRegister_last_node_example:
  "handleUnRegister (\<lambda>ns n. ns) (\<lambda>vs. Inr [0::nat]) (example_node 1 [])
     (example_cluster [example_node 1 [\<lparr>ch_Name = ''c1'', ch_State = Complete, ch_CollectionID = 5\<rparr>]])
   = \<lparr>nodes = [], chanBuffer = [\<lparr>ch_Name = ''c1'', ch_State = Uncomplete, ch_CollectionID = 5\<rparr>],
      kv = \<lparr>kv_store = [clusterBuffer \<mapsto> NodeText \<lparr>Address = [], Version = 0,
              Channels = [\<lparr>ch_Name = ''c1'', ch_State = Uncomplete, ch_CollectionID = 5\<rparr>]\<rparr>],
             kv_down = False\<rparr>,
      nodeEvents = []\<rparr>"
  by (simp add: handleUnRegister_def example_cluster_def example_node_def ClusterStore_GetNode_def
       ClusterStore_DeleteNode_def ClusterStore_GetNodes_def txnSaveNodesAndBuffer_def kv_MultiSave_def)

section \<open>Properties of the index coordinator\<close>

subsection \<open>Loss of a worker\<close>

text \<open>
  C8. When the session of an index worker is removed, the worker leaves the priority queue
  (and only that worker), the build-ids of its task set are put on the assignment channel
  (so each of them is on the channel afterwards), and its task set is deleted (the task sets
  of the other workers stay); the meta table is not touched.
\<close>

theorem watchNodeLoop_session_removed:
  "serverID \<notin> pq_key ` set (nodeClients (watchNodeLoop_turn SessionDelEvent serverID i))
   \<and> (\<forall>x \<in> set (nodeClients i). pq_key x \<noteq> serverID \<longrightarrow>
         x \<in> set (nodeClients (watchNodeLoop_turn SessionDelEvent serverID i)))
   \<and> assignChan (watchNodeLoop_turn SessionDelEvent serverID i)
       = assignChan i @ [getTasksByNodeID (nodeTasks i) serverID]
   \<and> (\<forall>b \<in> set (getTasksByNodeID (nodeTasks i) serverID).
         \<exists>ids \<in> set (assignChan (watchNodeLoop_turn SessionDelEvent serverID i)). b \<in> set ids)
   \<and> map_of (nodeTasks (watchNodeLoop_turn SessionDelEvent serverID i)) serverID = None
   \<and> getTasksByNodeID (nodeTasks (watchNodeLoop_turn SessionDelEvent serverID i)) serverID = []
   \<and> (\<forall>n. n \<noteq> serverID \<longrightarrow>
         getTasksByNodeID (nodeTasks (watchNodeLoop_turn SessionDelEvent serverID i)) n
           = getTasksByNodeID (nodeTasks i) n)
   \<and> metaTable (watchNodeLoop_turn SessionDelEvent serverID i) = metaTable i"
  by (auto simp: watchNodeLoop_turn_def removeNode_def pq_Remove_def nodeTasks_delete_def
        getTasksByNodeID_def Let_def delete_conv')

theorem watchNodeLoop_session_removed_witness:
  "(10::int) \<in> set (getTasksByNodeID
        (nodeTasks ((example_coord Healthy [] [1, 2])\<lparr>nodeTasks := [(1, [10, 11]), (2, [12])]\<rparr>)) 1)
   \<and> \<lparr>pq_key = 2, pq_priority = 0\<rparr> \<in> set (nodeClients (example_coord Healthy [] [1, 2]))
   \<and> watchNodeLoop_turn SessionDelEvent 1
        ((example_coord Healthy [] [1, 2])\<lparr>nodeTasks := [(1, [10, 11]), (2, [12])]\<rparr>)
      = (example_coord Healthy [] [2])\<lparr>nodeTasks := [(2, [12])], assignChan := [[10, 11]]\<rparr>"
  using watchNodeLoop_session_removed
    [of 1 "(example_coord Healthy [] [1, 2])\<lparr>nodeTasks := [(1, [10, 11]), (2, [12])]\<rparr>"]
  by (simp add: example_coord_def watchNodeLoop_turn_def removeNode_def pq_Remove_def
        nodeTasks_delete_def getTasksByNodeID_def Let_def)

subsection \<open>Idempotent build requests\<close>

lemma HasSameReq_fingerprint:
  "fingerprint req' = fingerprint req \<Longrightarrow> HasSameReq t req' = HasSameReq t req"
  by (induction t) auto

lemma HasSameReq_update_new:
  "\<not> fst (HasSameReq t req) \<Longrightarrow> \<not> MarkDeleted m \<Longrightarrow> fingerprint (Req m) = fingerprint req \<Longrightarrow>
     HasSameReq (AList.update k m t) req = (True, IndexBuildID m)"
  by (induction t) (auto split: if_splits)

lemma HasSameReq_hit:
  "HasSameReq t req = (True, bid) \<Longrightarrow>
     \<exists>k m. (k, m) \<in> set t \<and> \<not> MarkDeleted m \<and> fingerprint (Req m) = fingerprint req
       \<and> IndexBuildID m = bid"
proof (induction t)
  case Nil
  then show ?case by simp
next
  case (Cons p t)
  obtain k0 m0 where p: "p = (k0, m0)" by (cases p)
  show ?case
  proof (cases "\<not> MarkDeleted m0 \<and> fingerprint (Req m0) = fingerprint req")
    case True
    with Cons.prems p have "IndexBuildID m0 = bid" by simp
    with True p show ?thesis by fastforce
  next
    case False
    with Cons.prems p have "HasSameReq t req = (True, bid)" by auto
    from Cons.IH [OF this] show ?thesis by fastforce
  qed
qed

lemma HasSameReq_exists:
  "(k, m) \<in> set t \<Longrightarrow> \<not> MarkDeleted m \<Longrightarrow> fingerprint (Req m) = fingerprint req \<Longrightarrow>
     fst (HasSameReq t req)"
  by (induction t) (auto split: if_splits)

lemma BuildIndex_hit:
  "HasSameReq (metaTable i) req = (True, bid) \<Longrightarrow>
     BuildIndex enqueueErr taskErr req i =
       (\<lparr>resp_Status = \<lparr>ErrorCode = Success, Reason = ''already have same index''\<rparr>,
         resp_IndexBuildID = bid\<rparr>, i)"
  by (simp add: BuildIndex_def)

lemma BuildIndex_miss:
  "HasSameReq (metaTable i) req = (False, x) \<Longrightarrow>
     BuildIndex None None req i =
       (\<lparr>resp_Status = \<lparr>ErrorCode = Success, Reason = []\<rparr>, resp_IndexBuildID = idAllocator i\<rparr>,
        i\<lparr>idAllocator := idAllocator i + 1,
          metaTable := AList.update (idAllocator i)
             \<lparr>IndexBuildID = idAllocator i, im_State = IndexStateNone, Req = req,
              MarkDeleted = False, NodeID = 0, im_Version = 0\<rparr> (metaTable i),
          assignChan := assignChan i @ [[idAllocator i]]\<rparr>)"
  by (simp add: BuildIndex_def IndexAddTask_run_def Let_def)

lemma BuildIndex_miss_error:
  "HasSameReq (metaTable i) req = (False, x) \<Longrightarrow> enqueueErr \<noteq> None \<or> taskErr \<noteq> None \<Longrightarrow>
     ErrorCode (resp_Status (fst (BuildIndex enqueueErr taskErr req i))) = UnexpectedError
     \<and> snd (BuildIndex enqueueErr taskErr req i) = i"
  by (cases enqueueErr; cases taskErr) (simp_all add: BuildIndex_def IndexAddTask_run_def)

lemma BuildIndex_success:
  assumes "BuildIndex enqueueErr taskErr req i = (resp1, i1)"
      and "ErrorCode (resp_Status resp1) = Success"
  shows "HasSameReq (metaTable i1) req = (True, resp_IndexBuildID resp1)"
proof (cases "HasSameReq (metaTable i) req")
  case (Pair hasIndex x)
  show ?thesis
  proof (cases hasIndex)
    case True
    with Pair have h: "HasSameReq (metaTable i) req = (True, x)" by simp
    from assms(1) BuildIndex_hit [OF h, of enqueueErr taskErr]
    have "i1 = i" "resp_IndexBuildID resp1 = x" by auto
    with h show ?thesis by simp
  next
    case False
    with Pair have h: "HasSameReq (metaTable i) req = (False, x)" by simp
    have e: "enqueueErr = None \<and> taskErr = None"
    proof (rule ccontr)
      assume "\<not> (enqueueErr = None \<and> taskErr = None)"
      then have "enqueueErr \<noteq> None \<or> taskErr \<noteq> None" by simp
      from BuildIndex_miss_error [OF h this] assms show False by simp
    qed
    let ?m = "\<lparr>IndexBuildID = idAllocator i, im_State = IndexStateNone, Req = req,
                MarkDeleted = False, NodeID = 0, im_Version = 0\<rparr>"
    from assms(1) e BuildIndex_miss [OF h]
    have r: "resp_IndexBuildID resp1 = idAllocator i"
      and t: "metaTable i1 = AList.update (idAllocator i) ?m (metaTable i)"
      by auto
    have "HasSameReq (AList.update (idAllocator i) ?m (metaTable i)) req = (True, IndexBuildID ?m)"
      by (rule HasSameReq_update_new) (simp_all add: h)
    with r t show ?thesis by simp
  qed
qed

text \<open>
  C1. \<open>BuildIndex\<close> is idempotent through the fingerprint of the request. When
  \<open>HasSameReq\<close> finds a task, that task is in the table, is not marked deleted and has the
  fingerprint of the request; the call then answers Success with the task's build-id and
  leaves the coordinator as it was: no task is created, nothing is put on the assignment
  channel. A task in the table that is not marked deleted and has the request's fingerprint
  is found. And after a call that answered Success, a second call with a request of the same
  fingerprint answers Success with the build-id of the first call and changes nothing.
\<close>

theorem BuildIndex_idempotent:
  "(HasSameReq (metaTable i) req = (True, bid) \<longrightarrow>
      BuildIndex enqueueErr taskErr req i =
        (\<lparr>resp_Status = \<lparr>ErrorCode = Success, Reason = ''already have same index''\<rparr>,
          resp_IndexBuildID = bid\<rparr>, i)
      \<and> (\<exists>k m. (k, m) \<in> set (metaTable i) \<and>
            \<not> MarkDeleted m \<and> fingerprint (Req m) = fingerprint req \<and> IndexBuildID m = bid))
   \<and> ((k, m) \<in> set (metaTable i) \<and> \<not> MarkDeleted m \<and> fingerprint (Req m) = fingerprint req \<longrightarrow>
        fst (HasSameReq (metaTable i) req))
   \<and> (BuildIndex enqueueErr taskErr req i = (resp1, i1) \<and> ErrorCode (resp_Status resp1) = Success
        \<and> fingerprint req' = fingerprint req \<longrightarrow>
      BuildIndex enqueueErr' taskErr' req' i1 =
        (\<lparr>resp_Status = \<lparr>ErrorCode = Success, Reason = ''already have same index''\<rparr>,
          resp_IndexBuildID = resp_IndexBuildID resp1\<rparr>, i1))"
proof (intro conjI impI)
  assume h: "HasSameReq (metaTable i) req = (True, bid)"
  show "BuildIndex enqueueErr taskErr req i =
        (\<lparr>resp_Status = \<lparr>ErrorCode = Success, Reason = ''already have same index''\<rparr>,
          resp_IndexBuildID = bid\<rparr>, i)"
    by (rule BuildIndex_hit [OF h])
  show "\<exists>k m. (k, m) \<in> set (metaTable i) \<and>
            \<not> MarkDeleted m \<and> fingerprint (Req m) = fingerprint req \<and> IndexBuildID m = bid"
    by (rule HasSameReq_hit [OF h])
next
  assume a: "(k, m) \<in> set (metaTable i) \<and> \<not> MarkDeleted m \<and> fingerprint (Req m) = fingerprint req"
  from a have a1: "(k, m) \<in> set (metaTable i)" by (rule conjunct1)
  from a have a2: "\<not> MarkDeleted m" by (elim conjE)
  from a have a3: "fingerprint (Req m) = fingerprint req" by (elim conjE)
  show "fst (HasSameReq (metaTable i) req)"
    by (rule HasSameReq_exists [OF a1 a2 a3])
next
  assume a: "BuildIndex enqueueErr taskErr req i = (resp1, i1) \<and> ErrorCode (resp_Status resp1) = Success
        \<and> fingerprint req' = fingerprint req"
  from a have a1: "BuildIndex enqueueErr taskErr req i = (resp1, i1)" by (rule conjunct1)
  from a have a2: "ErrorCode (resp_Status resp1) = Success" by (elim conjE)
  from a have a3: "fingerprint req' = fingerprint req" by (elim conjE)
  have "HasSameReq (metaTable i1) req = (True, resp_IndexBuildID resp1)"
    by (rule BuildIndex_success [OF a1 a2])
  then have "HasSameReq (metaTable i1) req' = (True, resp_IndexBuildID resp1)"
    by (simp only: HasSameReq_fingerprint [OF a3])
  then show "BuildIndex enqueueErr' taskErr' req' i1 =
        (\<lparr>resp_Status = \<lparr>ErrorCode = Success, Reason = ''already have same index''\<rparr>,
          resp_IndexBuildID = resp_IndexBuildID resp1\<rparr>, i1)"
    by (rule BuildIndex_hit)
qed

theorem BuildIndex_idempotent_witness:
  "BuildIndex None None (example_request [''p1'', ''p2'']) (example_coord Healthy [] [1])
     = (\<lparr>resp_Status = \<lparr>ErrorCode = Success, Reason = []\<rparr>, resp_IndexBuildID = 100\<rparr>,
        (example_coord Healthy [example_task 100 IndexStateNone (example_request [''p1'', ''p2''])] [1])
          \<lparr>assignChan := [[100]], idAllocator := 101\<rparr>)
   \<and> fingerprint ((example_request [''p1'', ''p2''])\<lparr>req_IndexBuildID := 55\<rparr>)
       = fingerprint (example_request [''p1'', ''p2''])
   \<and> HasSameReq [(100, example_task 100 IndexStateNone (example_request [''p1'', ''p2'']))]
         (example_request [''p1'', ''p2'']) = (True, 100)
   \<and> BuildIndex None None ((example_request [''p1'', ''p2''])\<lparr>req_IndexBuildID := 55\<rparr>)
        ((example_coord Healthy [example_task 100 IndexStateNone (example_request [''p1'', ''p2''])] [1])
          \<lparr>assignChan := [[100]], idAllocator := 101\<rparr>)
     = (\<lparr>resp_Status = \<lparr>ErrorCode = Success, Reason = ''already have same index''\<rparr>,
         resp_IndexBuildID = 100\<rparr>,
        (example_coord Healthy [example_task 100 IndexStateNone (example_request [''p1'', ''p2''])] [1])
          \<lparr>assignChan := [[100]], idAllocator := 101\<rparr>)"
  using BuildIndex_idempotent
    [of "example_coord Healthy [] [1]" "example_request [''p1'', ''p2'']" 100 None None
        100 "example_task 100 IndexStateNone (example_request [''p1'', ''p2''])"
        "\<lparr>resp_Status = \<lparr>ErrorCode = Success, Reason = []\<rparr>, resp_IndexBuildID = 100\<rparr>"
        "(example_coord Healthy [example_task 100 IndexStateNone (example_request [''p1'', ''p2''])] [1])
          \<lparr>assignChan := [[100]], idAllocator := 101\<rparr>"
        "(example_request [''p1'', ''p2''])\<lparr>req_IndexBuildID := 55\<rparr>" None None]
    BuildIndex_idempotent
    [of "(example_coord Healthy [example_task 100 IndexStateNone (example_request [''p1'', ''p2''])] [1])
          \<lparr>assignChan := [[100]], idAllocator := 101\<rparr>" "example_request [''p1'', ''p2'']" 100 None None
        100 "example_task 100 IndexStateNone (example_request [''p1'', ''p2''])"]
  by (simp add: BuildIndex_def IndexAddTask_run_def example_coord_def example_task_def
        example_request_def fingerprint_def)

subsection \<open>The assignment loop\<close>

text \<open>
  C7. One turn of the assignment loop on a task in state Unissued with one worker known, when
  the \<open>CreateIndex\<close> RPC fails (a transport error, or a status that is not Success): the
  task's state stays Unissued and the worker's priority is not incremented, but the build-id
  is not put back on the assignment channel, which is left empty; the task stays in the
  worker's task set with its version bumped.
\<close>

theorem assignmentTasksLoop_rpc_failure_not_requeued:
  "assignmentTasksLoop_turn (\<lambda>n r. RpcError ''unavailable'')
     ((example_coord Healthy [example_task 3 Unissued (example_request [''p1''])] [1])\<lparr>assignChan := [[3]]\<rparr>)
   = Some (None,
       (example_coord Healthy [(example_task 3 Unissued (example_request [''p1'']))\<lparr>im_Version := 1\<rparr>] [1])
         \<lparr>assignChan := [], nodeTasks := [(1, [3])]\<rparr>)
   \<and> assignmentTasksLoop_turn (\<lambda>n r. RpcStatus \<lparr>ErrorCode = UnexpectedError, Reason = ''busy''\<rparr>)
     ((example_coord Healthy [example_task 3 Unissued (example_request [''p1''])] [1])\<lparr>assignChan := [[3]]\<rparr>)
   = Some (None,
       (example_coord Healthy [(example_task 3 Unissued (example_request [''p1'']))\<lparr>im_Version := 1\<rparr>] [1])
         \<lparr>assignChan := [], nodeTasks := [(1, [3])]\<rparr>)"
  by (simp add: assignmentTasksLoop_turn_def assignment_step_def example_coord_def example_task_def
        GetIndexMeta_def UpdateVersion_def PeekClient_def assignTask_def getTasksByNodeID_def Let_def)

text \<open>
  The sibling path of the same loop body, with no worker in the queue, does put the build-id
  back on the channel; and on success of the RPC the task moves to InProgress and the worker's
  priority goes up by one.
\<close>

lemma assignmentTasksLoop_no_worker_requeued:
  "assignmentTasksLoop_turn (\<lambda>n r. RpcError ''unavailable'')
     ((example_coord Healthy [example_task 3 Unissued (example_request [''p1''])] [])\<lparr>assignChan := [[3]]\<rparr>)
   = Some (None,
       (example_coord Healthy [(example_task 3 Unissued (example_request [''p1'']))\<lparr>im_Version := 1\<rparr>] [])
         \<lparr>assignChan := [[3]]\<rparr>)"
  by (simp add: assignmentTasksLoop_turn_def assignment_step_def example_coord_def example_task_def
        GetIndexMeta_def UpdateVersion_def PeekClient_def assignTask_def getTasksByNodeID_def Let_def)

lemma assignmentTasksLoop_rpc_success_example:
  "assignmentTasksLoop_turn (\<lambda>n r. RpcStatus \<lparr>ErrorCode = Success, Reason = []\<rparr>)
     ((example_coord Healthy [example_task 3 Unissued (example_request [''p1''])] [1])\<lparr>assignChan := [[3]]\<rparr>)
   = Some (None,
       \<lparr>stateCode = Healthy,
        metaTable = [(3, (example_task 3 InProgress (example_request [''p1'']))\<lparr>im_Version := 1, NodeID := 1\<rparr>)],
        assignChan = [], nodeClients = [\<lparr>pq_key = 1, pq_priority = 1\<rparr>], nodeTasks = [(1, [3])],
        idAllocator = 100\<rparr>)"
  by (simp add: assignmentTasksLoop_turn_def assignment_step_def example_coord_def example_task_def
        GetIndexMeta_def UpdateVersion_def PeekClient_def assignTask_def getTasksByNodeID_def Let_def
        metaTable_BuildIndex_def IncPriority_def)

text \<open>
  In general: when the RPC to the chosen worker fails, the step leaves the assignment channel,
  the task's state and the priority queue as they were, and the task in the worker's task set.
\<close>

lemma assignment_step_rpc_failure:
  assumes "GetIndexMeta (metaTable i) b = Some m" and "im_State m \<noteq> Finished"
      and "PeekClient (nodeClients i) = Some nodeID"
      and "\<And>r. case rpc nodeID r of RpcError e \<Rightarrow> True
                                          | RpcStatus st \<Rightarrow> ErrorCode st \<noteq> Success"
  shows "fst (assignment_step rpc b i) = None
       \<and> assignChan (snd (assignment_step rpc b i)) = assignChan i
       \<and> map_option im_State (GetIndexMeta (metaTable (snd (assignment_step rpc b i))) b)
          = Some (im_State m)
       \<and> nodeClients (snd (assignment_step rpc b i)) = nodeClients i
       \<and> b \<in> set (getTasksByNodeID (nodeTasks (snd (assignment_step rpc b i))) nodeID)"
proof -
  define r where "r = \<lparr>ci_IndexBuildID = b, ci_IndexName = req_IndexName (Req m),
      ci_IndexID = req_IndexID (Req m), ci_Version = im_Version m + 1,
      ci_MetaPath = ''/indexes/'' @ show_int b, ci_DataPaths = req_DataPaths (Req m),
      ci_TypeParams = req_TypeParams (Req m), ci_IndexParams = req_IndexParams (Req m)\<rparr>"
  define i2 where "i2 = i\<lparr>metaTable := UpdateVersion b (metaTable i),
      nodeTasks := assignTask nodeID b (nodeTasks i)\<rparr>"
  have step: "assignment_step rpc b i = (None, i2)"
    using assms(1-3) assms(4) [of r]
    by (simp add: assignment_step_def Let_def r_def i2_def split: RpcResult.splits)
  have st: "map_option im_State (GetIndexMeta (UpdateVersion b (metaTable i)) b) = Some (im_State m)"
    using assms(1) by (simp add: GetIndexMeta_def UpdateVersion_def map_of_map_entry)
  have nt: "b \<in> set (getTasksByNodeID (assignTask nodeID b (nodeTasks i)) nodeID)"
    by (simp add: assignTask_def getTasksByNodeID_def update_conv')
  from step st nt show ?thesis by (simp add: i2_def)
qed

section \<open>Properties of the root coordinator\<close>

subsection \<open>Replay of the last DDL message on startup\<close>







lemma reSendDdMsg_unknown_collection:
  "snap_Load (meta_client c) DDMsgSendPrefix = Inr ''false'' \<Longrightarrow>
   snap_Load (meta_client c) DDOperationPrefix = Inr ddOpStr \<Longrightarrow>
   unmarshalJSON ddOpStr = Some ddOp \<Longrightarrow>
   Type ddOp = CreateCollectionDDType \<Longrightarrow>
   unmarshalText CreateCollectionMsg (Body ddOp) = Some ddReq \<Longrightarrow>
   collName2Info c (dd_CollectionName ddReq) = None \<Longrightarrow>
     reSendDdMsg unmarshalJSON unmarshalText c = (Some CollectionNotFound, c)"
  by (simp add: reSendDdMsg_def resend_case_def GetCollectionByName_def)







section \<open>Properties of the coordinators: the state-code check\<close>

text \<open>
  Not every RPC of every coordinator refuses to run when the state code is not Healthy. The
  index coordinator in state Abnormal: \<open>BuildIndex\<close> answers Success with the build-id of
  the matching task, and \<open>GetTimeTickChannel\<close> answers Success.
\<close>

theorem BuildIndex_not_healthy_counterexample:
  "stateCode (example_coord Abnormal [example_task 3 Unissued (example_request [''p1''])] [1]) \<noteq> Healthy
   \<and> BuildIndex None None (example_request [''p1''])
        (example_coord Abnormal [example_task 3 Unissued (example_request [''p1''])] [1])
      = (\<lparr>resp_Status = \<lparr>ErrorCode = Success, Reason = ''already have same index''\<rparr>,
          resp_IndexBuildID = 3\<rparr>,
         example_coord Abnormal [example_task 3 Unissued (example_request [''p1''])] [1])
   \<and> ErrorCode (fst (IndexCoord_GetTimeTickChannel
        (example_coord Abnormal [example_task 3 Unissued (example_request [''p1''])] [1]))) = Success"
  by (simp add: BuildIndex_def example_coord_def example_task_def IndexCoord_GetTimeTickChannel_def)

text \<open>The answer of \<open>BuildIndex\<close> does not depend on the state code at all.\<close>

lemma BuildIndex_ignores_stateCode:
  "BuildIndex enqueueErr taskErr req (i\<lparr>stateCode := code\<rparr>)
     = (fst (BuildIndex enqueueErr taskErr req i),
        (snd (BuildIndex enqueueErr taskErr req i))\<lparr>stateCode := code\<rparr>)"
proof (cases "HasSameReq (metaTable i) req")
  case (Pair hasIndex x)
  show ?thesis
  proof (cases hasIndex)
    case True
    with Pair show ?thesis by (simp add: BuildIndex_def)
  next
    case False
    with Pair show ?thesis
      by (cases enqueueErr; cases taskErr) (simp_all add: BuildIndex_def IndexAddTask_run_def Let_def)
  qed
qed

text \<open>
  The fourteen RPCs that run a task share one shape. With a state code other than Healthy the
  answer is the refusal, the task is not run, and of the counters only the request count of
  the RPC has moved; a request without its \<open>Base\<close> header fails at the counter, before the
  check.
\<close>

lemma guarded_task_refuses:
  "core_stateCode c \<noteq> Healthy \<Longrightarrow> Base req = Some b \<Longrightarrow>
     guarded_task counter refusal failure response success executeTask req c mt =
       (Inr (response \<lparr>ErrorCode = UnexpectedError,
                         Reason = refusal @ ''state code = '' @ StateCode_name (core_stateCode c)\<rparr>
               None),
        c, Inc counter (metricProxy (mb_SourceID b)) MetricRequestsTotal mt)"
  by (simp add: guarded_task_def Let_def)

lemma guarded_task_no_header:
  "Base req = None \<Longrightarrow>
     guarded_task counter refusal failure response success executeTask req c mt =
       (Inl NilPointer, c, mt)"
  by (simp add: guarded_task_def)

text \<open>
  C4, amended. Each RPC of the root coordinator that starts with the state-code check
  (\<open>CreateCollection\<close>, \<open>DropCollection\<close>, \<open>HasCollection\<close>, \<open>DescribeCollection\<close>,
  \<open>ShowCollections\<close>, \<open>CreatePartition\<close>, \<open>DropPartition\<close>, \<open>HasPartition\<close>,
  \<open>ShowPartitions\<close>, \<open>CreateIndex\<close>, \<open>DescribeIndex\<close>, \<open>DropIndex\<close>, \<open>DescribeSegment\<close>,
  \<open>ShowSegments\<close>, \<open>AllocTimestamp\<close>, \<open>AllocID\<close>, \<open>UpdateChannelTimeTick\<close>,
  \<open>ReleaseDQLMessageStream\<close>, \<open>SegmentFlushCompleted\<close>), when the state code is not Healthy,
  answers UnexpectedError with a reason that ends in "state code = " and the name of the
  state, and does not run the operation: the coordinator is unchanged. The fourteen RPCs
  that run a task count the request before the check, reading the \<open>Base\<close> header of the
  request, so for them the request carries its header, and the request count of the RPC is
  the only counter that moves. The other RPCs make no such check: \<open>GetTimeTickChannel\<close> and
  \<open>GetStatisticsChannel\<close> of the root coordinator answer Success in every state, and the
  answer of the index coordinator's \<open>BuildIndex\<close> is the same under every state code.
\<close>

theorem RootCoord_state_check:
  "(core_stateCode c \<noteq> Healthy \<longrightarrow>
      AllocTimestamp TSOAllocator areq c =
        (Inr \<lparr>ats_Status = \<lparr>ErrorCode = UnexpectedError,
              Reason = ''state code = '' @ StateCode_name (core_stateCode c)\<rparr>,
              ats_Timestamp = 0, ats_Count = 0\<rparr>, c)
      \<and> AllocID IDAllocator areq c =
        (Inr \<lparr>aid_Status = \<lparr>ErrorCode = UnexpectedError,
              Reason = ''state code = '' @ StateCode_name (core_stateCode c)\<rparr>,
              aid_ID = 0, aid_Count = 0\<rparr>, c)
      \<and> UpdateChannelTimeTick MsgType_value UpdateTimeTick treq c =
        (Inr \<lparr>ErrorCode = UnexpectedError,
              Reason = ''state code = '' @ StateCode_name (core_stateCode c)\<rparr>, c)
      \<and> ReleaseDQLMessageStream release rreq c =
        (\<lparr>ErrorCode = UnexpectedError,
              Reason = ''state code = '' @ StateCode_name (core_stateCode c)\<rparr>, c)
      \<and> SegmentFlushCompleted MsgType_name svc mta freq c =
        (Inr \<lparr>ErrorCode = UnexpectedError,
              Reason = ''state code = '' @ StateCode_name (core_stateCode c)\<rparr>, c))
   \<and> (core_stateCode c \<noteq> Healthy \<and> Base req = Some b \<longrightarrow>
      CreateCollection exS req c mt =
        (Inr \<lparr>ErrorCode = UnexpectedError,
              Reason = ''state code = '' @ StateCode_name (core_stateCode c)\<rparr>, c,
         Inc ''RootCoordCreateCollectionCounter'' (metricProxy (mb_SourceID b)) MetricRequestsTotal mt)
      \<and> DropCollection exS req c mt =
        (Inr \<lparr>ErrorCode = UnexpectedError,
              Reason = ''state code = '' @ StateCode_name (core_stateCode c)\<rparr>, c,
         Inc ''RootCoordDropCollectionCounter'' (metricProxy (mb_SourceID b)) MetricRequestsTotal mt)
      \<and> HasCollection exB req c mt =
        (Inr \<lparr>bool_Status = \<lparr>ErrorCode = UnexpectedError,
              Reason = ''state code = '' @ StateCode_name (core_stateCode c)\<rparr>,
            bool_Value = False\<rparr>, c,
         Inc ''RootCoordHasCollectionCounter'' (metricProxy (mb_SourceID b)) MetricRequestsTotal mt)
      \<and> DescribeCollection exP req c mt =
        (Inr \<lparr>rsp_Status = \<lparr>ErrorCode = UnexpectedError,
              Reason = ''state code = '' @ StateCode_name (core_stateCode c)\<rparr>,
            rsp_Fields = None\<rparr>, c,
         Inc ''RootCoordDescribeCollectionCounter'' (metricProxy (mb_SourceID b)) MetricRequestsTotal mt)
      \<and> ShowCollections exP req c mt =
        (Inr \<lparr>rsp_Status = \<lparr>ErrorCode = UnexpectedError,
              Reason = ''state code = '' @ StateCode_name (core_stateCode c)\<rparr>,
            rsp_Fields = None\<rparr>, c,
         Inc ''RootCoordShowCollectionsCounter'' (metricProxy (mb_SourceID b)) MetricRequestsTotal mt)
      \<and> CreatePartition exS req c mt =
        (Inr \<lparr>ErrorCode = UnexpectedError,
              Reason = ''state code = '' @ StateCode_name (core_stateCode c)\<rparr>, c,
         Inc ''RootCoordCreatePartitionCounter'' (metricProxy (mb_SourceID b)) MetricRequestsTotal mt)
      \<and> DropPartition exS req c mt =
        (Inr \<lparr>ErrorCode = UnexpectedError,
              Reason = ''state code = '' @ StateCode_name (core_stateCode c)\<rparr>, c,
         Inc ''RootCoordDropPartitionCounter'' (metricProxy (mb_SourceID b)) MetricRequestsTotal mt)
      \<and> HasPartition exB req c mt =
        (Inr \<lparr>bool_Status = \<lparr>ErrorCode = UnexpectedError,
              Reason = ''state code = '' @ StateCode_name (core_stateCode c)\<rparr>,
            bool_Value = False\<rparr>, c,
         Inc ''RootCoordHasPartitionCounter'' (metricProxy (mb_SourceID b)) MetricRequestsTotal mt)
      \<and> ShowPartitions exP req c mt =
        (Inr \<lparr>rsp_Status = \<lparr>ErrorCode = UnexpectedError,
              Reason = ''rootcoord is not healthy, state code = '' @ StateCode_name (core_stateCode c)\<rparr>,
            rsp_Fields = None\<rparr>, c,
         Inc ''RootCoordShowPartitionsCounter'' (metricProxy (mb_SourceID b)) MetricRequestsTotal mt)
      \<and> CreateIndex exS req c mt =
        (Inr \<lparr>ErrorCode = UnexpectedError,
              Reason = ''state code = '' @ StateCode_name (core_stateCode c)\<rparr>, c,
         Inc ''RootCoordCreateIndexCounter'' (metricProxy (mb_SourceID b)) MetricRequestsTotal mt)
      \<and> DescribeIndex exD req c mt =
        (Inr \<lparr>rsp_Status = \<lparr>ErrorCode = UnexpectedError,
              Reason = ''state code = '' @ StateCode_name (core_stateCode c)\<rparr>,
            rsp_Fields = None\<rparr>, c,
         Inc ''RootCoordDescribeIndexCounter'' (metricProxy (mb_SourceID b)) MetricRequestsTotal mt)
      \<and> DropIndex exS req c mt =
        (Inr \<lparr>ErrorCode = UnexpectedError,
              Reason = ''state code = '' @ StateCode_name (core_stateCode c)\<rparr>, c,
         Inc ''RootCoordDropIndexCounter'' (metricProxy (mb_SourceID b)) MetricRequestsTotal mt)
      \<and> DescribeSegment exP req c mt =
        (Inr \<lparr>rsp_Status = \<lparr>ErrorCode = UnexpectedError,
              Reason = ''state code = '' @ StateCode_name (core_stateCode c)\<rparr>,
            rsp_Fields = None\<rparr>, c,
         Inc ''RootCoordDescribeSegmentCounter'' (metricProxy (mb_SourceID b)) MetricRequestsTotal mt)
      \<and> ShowSegments exP req c mt =
        (Inr \<lparr>rsp_Status = \<lparr>ErrorCode = UnexpectedError,
              Reason = ''state code = '' @ StateCode_name (core_stateCode c)\<rparr>,
            rsp_Fields = None\<rparr>, c,
         Inc ''RootCoordShowSegmentsCounter'' (metricProxy (mb_SourceID b)) MetricRequestsTotal mt))
   \<and> BuildIndex enqueueErr taskErr breq (i\<lparr>stateCode := code\<rparr>)
       = (fst (BuildIndex enqueueErr taskErr breq i),
          (snd (BuildIndex enqueueErr taskErr breq i))\<lparr>stateCode := code\<rparr>)
   \<and> Core_GetTimeTickChannel TimeTickChannel c = (\<lparr>ErrorCode = Success, Reason = []\<rparr>, TimeTickChannel)
   \<and> Core_GetStatisticsChannel StatisticsChannel c =
        (\<lparr>ErrorCode = Success, Reason = []\<rparr>, StatisticsChannel)"
proof (intro conjI impI)
  show "BuildIndex enqueueErr taskErr breq (i\<lparr>stateCode := code\<rparr>)
       = (fst (BuildIndex enqueueErr taskErr breq i),
          (snd (BuildIndex enqueueErr taskErr breq i))\<lparr>stateCode := code\<rparr>)"
    by (rule BuildIndex_ignores_stateCode)
qed (simp_all add: Core_GetTimeTickChannel_def Core_GetStatisticsChannel_def AllocTimestamp_def AllocID_def UpdateChannelTimeTick_def
       ReleaseDQLMessageStream_def SegmentFlushCompleted_def Let_def
       CreateCollection_def DropCollection_def HasCollection_def DescribeCollection_def
       ShowCollections_def CreatePartition_def DropPartition_def HasPartition_def
       ShowPartitions_def CreateIndex_def DescribeIndex_def DropIndex_def DescribeSegment_def
       ShowSegments_def guarded_task_refuses status_response_def bool_response_def
       task_response_def)


theorem RootCoord_state_check_witness:
  "core_stateCode (example_core Initializing []) \<noteq> Healthy
   \<and> Base \<lparr>Base = Some example_base, Payload = ''coll''\<rparr> = Some example_base
   \<and> AllocTimestamp (\<lambda>n c. (Inr 42, c)) \<lparr>Base = None, Payload = 3\<rparr> (example_core Initializing []) =
        (Inr \<lparr>ats_Status = \<lparr>ErrorCode = UnexpectedError, Reason = ''state code = Initializing''\<rparr>,
              ats_Timestamp = 0, ats_Count = 0\<rparr>, example_core Initializing [])
   \<and> CreateCollection (\<lambda>r c. (Inr (), c\<lparr>broker_down := True\<rparr>))
        \<lparr>Base = Some example_base, Payload = ''coll''\<rparr> (example_core Initializing []) (\<lambda>k. 0) =
        (Inr \<lparr>ErrorCode = UnexpectedError, Reason = ''state code = Initializing''\<rparr>,
         example_core Initializing [],
         Inc ''RootCoordCreateCollectionCounter'' (metricProxy 7) MetricRequestsTotal (\<lambda>k. 0))
   \<and> ShowPartitions (\<lambda>r c. (Inr [''p0''], c))
        \<lparr>Base = Some example_base, Payload = ''coll''\<rparr> (example_core Abnormal []) (\<lambda>k. 0) =
        (Inr \<lparr>rsp_Status = \<lparr>ErrorCode = UnexpectedError,
                              Reason = ''rootcoord is not healthy, state code = Abnormal''\<rparr>,
              rsp_Fields = None\<rparr>,
         example_core Abnormal [],
         Inc ''RootCoordShowPartitionsCounter'' (metricProxy 7) MetricRequestsTotal (\<lambda>k. 0))"
proof -
  have h1: "core_stateCode (example_core Initializing []) \<noteq> Healthy"
    by (simp add: example_core_def)
  have h2: "core_stateCode (example_core Abnormal []) \<noteq> Healthy"
    by (simp add: example_core_def)
  have hb: "Base \<lparr>Base = Some example_base, Payload = ''coll''\<rparr> = Some example_base"
    by simp
  note t1 = RootCoord_state_check
      [where c = "example_core Initializing []" and TSOAllocator = "\<lambda>n c. (Inr 42, c)"
         and areq = "\<lparr>Base = None, Payload = 3\<rparr>"
         and req = "\<lparr>Base = Some example_base, Payload = ''coll''\<rparr>" and b = example_base
         and exS = "\<lambda>r c. (Inr (), c\<lparr>broker_down := True\<rparr>)" and mt = "\<lambda>k. 0"]
  note t2 = RootCoord_state_check
      [where c = "example_core Abnormal []"
         and req = "\<lparr>Base = Some example_base, Payload = ''coll''\<rparr>" and b = example_base
         and exP = "\<lambda>r c. (Inr [''p0''], c)" and mt = "\<lambda>k. 0"]
  note a = t1 [THEN conjunct1, THEN mp, OF h1, THEN conjunct1]
  note b = t1 [THEN conjunct2, THEN conjunct1, THEN mp, OF conjI [OF h1 hb], THEN conjunct1]
  note c = t2 [THEN conjunct2, THEN conjunct1, THEN mp, OF conjI [OF h2 hb],
               THEN conjunct2, THEN conjunct2, THEN conjunct2, THEN conjunct2,
               THEN conjunct2, THEN conjunct2, THEN conjunct2, THEN conjunct2, THEN conjunct1]
  have n1: "StateCode_name (core_stateCode (example_core Initializing [])) = ''Initializing''"
    by (simp add: example_core_def)
  have n2: "StateCode_name (core_stateCode (example_core Abnormal [])) = ''Abnormal''"
    by (simp add: example_core_def)
  have s: "mb_SourceID example_base = 7"
    by (simp add: example_base_def)
  from a b c show ?thesis
    unfolding n1 n2 s using h1 hb by simp
qed

text \<open>
  For contrast: in state Healthy the task runs and both counters move, \<open>AllocTimestamp\<close>
  answers with the allocated timestamp, and a request without header is a nil dereference.
\<close>

lemma CreateCollection_healthy_example:
  "CreateCollection (\<lambda>r c. (Inr (), c\<lparr>broker_down := True\<rparr>))
      \<lparr>Base = Some example_base, Payload = ''coll''\<rparr> (example_core Healthy []) (\<lambda>k. 0) =
     (Inr \<lparr>ErrorCode = Success, Reason = []\<rparr>,
      (example_core Healthy [])\<lparr>broker_down := True\<rparr>,
      Inc ''RootCoordCreateCollectionCounter'' (metricProxy 7) MetricRequestsSuccess
        (Inc ''RootCoordCreateCollectionCounter'' (metricProxy 7) MetricRequestsTotal (\<lambda>k. 0)))
   \<and> AllocTimestamp (\<lambda>n c. (Inr 42, c)) \<lparr>Base = None, Payload = 3\<rparr> (example_core Healthy []) =
     (Inr \<lparr>ats_Status = \<lparr>ErrorCode = Success, Reason = []\<rparr>,
           ats_Timestamp = 42, ats_Count = 3\<rparr>, example_core Healthy [])
   \<and> CreateCollection (\<lambda>r c. (Inr (), c)) \<lparr>Base = None, Payload = ''coll''\<rparr>
        (example_core Initializing []) (\<lambda>k. 0) =
     (Inl NilPointer, example_core Initializing [], (\<lambda>k. 0))"
  by (simp add: CreateCollection_def guarded_task_def AllocTimestamp_def example_core_def
        example_base_def status_response_def status_Success_def Let_def)

section \<open>Properties of the segment table: state, start position, row count\<close>

subsection \<open>What the operations do to the fields of a row\<close>

lemma map_entry_field:
  "(\<And>v. g (f v) = g v) \<Longrightarrow>
     map_option g (map_of (AList.map_entry k f s) i) = map_option g (map_of s i)"
  by (simp add: map_of_map_entry split: option.splits)

lemma startPositions_loop_State:
  "map_option State (map_of (fst (startPositions_loop sps s mods)) i) = map_option State (map_of s i)"
  by (induction sps s mods rule: startPositions_loop.induct)
     (simp_all add: SegmentsInfo_SetStartPosition_def map_entry_field split: option.splits)

lemma checkpoints_loop_State:
  "map_option State (map_of (fst (snd (checkpoints_loop cps s mods))) i) = map_option State (map_of s i)"
  by (induction cps s mods rule: checkpoints_loop.induct)
     (simp_all add: SegmentsInfo_SetRowCount_def SegmentsInfo_SetDmlPositino_def map_entry_field
        split: option.splits sum.splits bool.splits)

lemma saveKvTxn_segments: "segments (snd (saveKvTxn kvs m)) = segments m"
  by (simp add: saveKvTxn_def kv_MultiSave_def split: prod.splits)

lemma saveSegmentInfo_segments: "segments (snd (saveSegmentInfo seg m)) = segments m"
  by (simp add: saveSegmentInfo_def kv_Save_def Let_def split: prod.splits)

lemma SetState_segments:
  "segments (snd (SetState i st m)) = SegmentsInfo_SetState i st (segments m)"
  by (simp add: SetState_def Let_def saveSegmentInfo_segments split: option.splits)

lemma SaveBinlogAndCheckPoints_segments:
  "segments (snd (SaveBinlogAndCheckPoints segID flushed binlogs cps sps m)) =
     fst (snd (checkpoints_loop cps
       (fst (startPositions_loop sps
          (if flushed then SegmentsInfo_SetState segID Flushing (segments m) else segments m) []))
       (snd (startPositions_loop sps
          (if flushed then SegmentsInfo_SetState segID Flushing (segments m) else segments m) []))))"
  by (simp add: SaveBinlogAndCheckPoints_def Let_def saveKvTxn_segments split: prod.splits option.splits)

lemma SetState_state:
  "map_option State (GetSegment (snd (SetState i st m)) j) =
     (if j = i then map_option (\<lambda>_. st) (GetSegment m j) else map_option State (GetSegment m j))"
  by (simp add: GetSegment_def SegmentsInfo_GetSegment_def SetState_segments SegmentsInfo_SetState_def
        map_of_map_entry split: option.splits)

lemma SaveBinlogAndCheckPoints_state:
  "map_option State (GetSegment (snd (SaveBinlogAndCheckPoints segID flushed binlogs cps sps m)) j) =
     (if flushed \<and> j = segID then map_option (\<lambda>_. Flushing) (GetSegment m j)
      else map_option State (GetSegment m j))"
  by (simp add: GetSegment_def SegmentsInfo_GetSegment_def SaveBinlogAndCheckPoints_segments
        checkpoints_loop_State startPositions_loop_State SegmentsInfo_SetState_def
        map_of_map_entry split: option.splits)

lemma flushCompleted_state:
  "map_option State (GetSegment (flushCompleted acked i m) j) =
     (if j = i \<and> (\<exists>seg. GetSegment m i = Some seg \<and> acked seg)
      then Some Flushed else map_option State (GetSegment m j))"
proof (cases "GetSegment m i")
  case None
  then show ?thesis by (simp add: flushCompleted_def)
next
  case (Some seg)
  show ?thesis
  proof (cases "acked seg")
    case True
    have "flushCompleted acked i m = snd (SetState i Flushed m)"
      using Some True by (simp add: flushCompleted_def)
    then have "map_option State (GetSegment (flushCompleted acked i m) j) =
       (if j = i then map_option (\<lambda>_. Flushed) (GetSegment m j) else map_option State (GetSegment m j))"
      by (simp only: SetState_state)
    with Some True show ?thesis by (cases "j = i") simp_all
  next
    case False
    with Some show ?thesis by (simp add: flushCompleted_def)
  qed
qed

lemma SetRowCount_segments:
  "segments (snd (SetRowCount i n m)) = SegmentsInfo_SetRowCount i n (segments m)"
  by (simp add: SetRowCount_def Let_def saveSegmentInfo_segments split: option.splits)

lemma SetRowCount_state:
  "map_option State (GetSegment (snd (SetRowCount i n m)) j) = map_option State (GetSegment m j)"
  by (simp add: GetSegment_def SegmentsInfo_GetSegment_def SetRowCount_segments
        SegmentsInfo_SetRowCount_def map_entry_field)

lemma apply_op_forward:
  assumes "op_forward m x" and "GetSegment m j = Some seg"
  shows "\<exists>seg'. GetSegment (apply_op x m) j = Some seg'
           \<and> state_rank (State seg) \<le> state_rank (State seg')"
proof -
  have "\<exists>st. map_option State (GetSegment (apply_op x m) j) = Some st
          \<and> state_rank (State seg) \<le> state_rank st"
    using assms
    by (cases x)
       (auto simp: SetState_state SaveBinlogAndCheckPoints_state flushCompleted_state
          SetRowCount_state not_below_def)
  then show ?thesis by auto
qed

subsection \<open>The state of a segment\<close>

text \<open>
  C2, amended. Over every sequence of meta operations (\<open>SetState\<close>,
  \<open>SaveBinlogAndCheckPoints\<close>, flush completion) in which each operation that writes a state
  writes one that is not below the current state of the segment it writes to, the state of
  every segment is monotone non-decreasing in the order
  Growing < Sealed < Flushing < Flushed < Dropped, and the segment stays in the table.
\<close>

theorem state_monotone_when_forward:
  "ops_forward m ops \<Longrightarrow> GetSegment m j = Some seg \<Longrightarrow>
     \<exists>seg'. GetSegment (run_ops ops m) j = Some seg'
        \<and> state_rank (State seg) \<le> state_rank (State seg')"
proof (induction ops arbitrary: m seg)
  case Nil
  then show ?case by simp
next
  case (Cons x ops)
  from Cons.prems have f: "op_forward m x" and r: "ops_forward (apply_op x m) ops" by simp_all
  from apply_op_forward [OF f Cons.prems(2)] obtain seg1 where
    s1: "GetSegment (apply_op x m) j = Some seg1" and
    le1: "state_rank (State seg) \<le> state_rank (State seg1)" by blast
  from Cons.IH [OF r s1] obtain seg' where
    "GetSegment (run_ops ops (apply_op x m)) j = Some seg'"
    "state_rank (State seg1) \<le> state_rank (State seg')" by blast
  with le1 show ?case by auto
qed

text \<open>
  Without that condition the state does move backward: \<open>SetState\<close> stores whatever state it
  is given, and \<open>SaveBinlogAndCheckPoints\<close> with \<open>flushed\<close> stores Flushing, on a segment
  that is already Flushed.
\<close>

theorem SetState_backward_counterexample:
  "GetSegment (example_meta [example_segment 1 Flushed]) 1 = Some (example_segment 1 Flushed)
   \<and> GetSegment (snd (SetState 1 Growing (example_meta [example_segment 1 Flushed]))) 1
       = Some (example_segment 1 Growing)
   \<and> state_rank (State (example_segment 1 Growing)) < state_rank (State (example_segment 1 Flushed))
   \<and> GetSegment (snd (SaveBinlogAndCheckPoints 1 True [] [] []
          (example_meta [example_segment 1 Flushed]))) 1
       = Some (example_segment 1 Flushing)
   \<and> state_rank (State (example_segment 1 Flushing)) < state_rank (State (example_segment 1 Flushed))"
  by (simp add: GetSegment_def SegmentsInfo_GetSegment_def SetState_segments
        SaveBinlogAndCheckPoints_segments SegmentsInfo_SetState_def example_meta_def
        example_segment_def)

theorem state_monotone_when_forward_witness:
  "ops_forward (example_meta [example_segment 1 Growing])
     [OpSetState 1 Sealed, OpSaveBinlogAndCheckPoints 1 True [] [] [], OpFlushCompleted 1 True]
   \<and> GetSegment (example_meta [example_segment 1 Growing]) 1 = Some (example_segment 1 Growing)
   \<and> GetSegment (run_ops
          [OpSetState 1 Sealed, OpSaveBinlogAndCheckPoints 1 True [] [] [], OpFlushCompleted 1 True]
          (example_meta [example_segment 1 Growing])) 1 = Some (example_segment 1 Flushed)
   \<and> state_rank (State (example_segment 1 Growing)) \<le> state_rank (State (example_segment 1 Flushed))"
  using state_monotone_when_forward
    [of "example_meta [example_segment 1 Growing]"
        "[OpSetState 1 Sealed, OpSaveBinlogAndCheckPoints 1 True [] [] [], OpFlushCompleted 1 True]"
        1 "example_segment 1 Growing"]
  by (simp add: GetSegment_def SegmentsInfo_GetSegment_def SetState_segments
        SaveBinlogAndCheckPoints_segments SegmentsInfo_SetState_def example_meta_def
        example_segment_def not_below_def flushCompleted_def)

subsection \<open>The start position of a segment\<close>

text \<open>
  C5. \<open>SaveBinlogAndCheckPoints\<close> on a segment whose stored start position is non-empty
  (message id \<open>[1, 2]\<close>): a start position with an empty message id replaces it, and so does
  a nil start position. And on a segment with no start position yet, a start position with a
  non-empty message id does not take effect.
\<close>

theorem SaveBinlogAndCheckPoints_start_position_overwritten:
  "GetSegment (snd (SaveBinlogAndCheckPoints 1 False [] []
       [\<lparr>sp_StartPosition = Some (example_position [] 9), sp_SegmentID = 1\<rparr>]
       (example_meta [(example_segment 1 Growing)\<lparr>StartPosition := Some (example_position [1, 2] 5)\<rparr>]))) 1
     = Some ((example_segment 1 Growing)\<lparr>StartPosition := Some (example_position [] 9)\<rparr>)
   \<and> GetSegment (snd (SaveBinlogAndCheckPoints 1 False [] []
       [\<lparr>sp_StartPosition = None, sp_SegmentID = 1\<rparr>]
       (example_meta [(example_segment 1 Growing)\<lparr>StartPosition := Some (example_position [1, 2] 5)\<rparr>]))) 1
     = Some ((example_segment 1 Growing)\<lparr>StartPosition := None\<rparr>)
   \<and> GetSegment (snd (SaveBinlogAndCheckPoints 1 False [] []
       [\<lparr>sp_StartPosition = Some (example_position [1, 2] 5), sp_SegmentID = 1\<rparr>]
       (example_meta [example_segment 1 Growing]))) 1
     = Some (example_segment 1 Growing)"
  by (simp add: GetSegment_def SegmentsInfo_GetSegment_def SaveBinlogAndCheckPoints_segments
        SegmentsInfo_SetStartPosition_def example_meta_def example_segment_def
        example_position_def GetMsgID_def)

text \<open>
  The guard of the loop looks at the message id of the position that comes in, not at the one
  that is stored: positions with a non-empty message id are all skipped.
\<close>

lemma startPositions_loop_nonempty_ignored:
  "\<forall>pos \<in> set sps. GetMsgID (sp_StartPosition pos) \<noteq> [] \<Longrightarrow>
     startPositions_loop sps s mods = (s, mods)"
  by (induction sps) simp_all

subsection \<open>The row count of a segment\<close>

lemma SetRowCount_row:
  "GetSegment m i = Some seg \<Longrightarrow>
     GetSegment (snd (SetRowCount i n m)) i = Some (seg\<lparr>NumOfRows := n\<rparr>)"
  by (simp add: GetSegment_def SegmentsInfo_GetSegment_def SetRowCount_segments
        SegmentsInfo_SetRowCount_def map_of_map_entry)

text \<open>
  The row count is not monotone: \<open>SetRowCount\<close> with 5 on a segment of 10 rows leaves 5, and
  so does a newer checkpoint that carries 5 rows.
\<close>

theorem SetRowCount_decreases_counterexample:
  "GetSegment (example_meta [(example_segment 1 Growing)\<lparr>NumOfRows := 10\<rparr>]) 1
     = Some ((example_segment 1 Growing)\<lparr>NumOfRows := 10\<rparr>)
   \<and> GetSegment (snd (SetRowCount 1 5
         (example_meta [(example_segment 1 Growing)\<lparr>NumOfRows := 10\<rparr>]))) 1
     = Some ((example_segment 1 Growing)\<lparr>NumOfRows := 5\<rparr>)
   \<and> NumOfRows ((example_segment 1 Growing)\<lparr>NumOfRows := 5\<rparr>)
       < NumOfRows ((example_segment 1 Growing)\<lparr>NumOfRows := 10\<rparr>)
   \<and> GetSegment (snd (SaveBinlogAndCheckPoints 1 False []
         [\<lparr>cp_SegmentID = 1, cp_Position = Some (example_position [7] 20), cp_NumOfRows = 5\<rparr>] []
         (example_meta [(example_segment 1 Growing)
            \<lparr>NumOfRows := 10, DmlPosition := Some (example_position [3] 8)\<rparr>]))) 1
     = Some ((example_segment 1 Growing)
            \<lparr>NumOfRows := 5, DmlPosition := Some (example_position [7] 20)\<rparr>)"
  by (simp add: GetSegment_def SegmentsInfo_GetSegment_def SetRowCount_segments
        SaveBinlogAndCheckPoints_segments SegmentsInfo_SetRowCount_def
        SegmentsInfo_SetDmlPositino_def checkpoint_is_stale_def
        example_meta_def example_segment_def example_position_def)

lemma startPositions_loop_DmlPosition:
  "map_option DmlPosition (map_of (fst (startPositions_loop sps s mods)) i)
     = map_option DmlPosition (map_of s i)"
  by (induction sps s mods rule: startPositions_loop.induct)
     (simp_all add: SegmentsInfo_SetStartPosition_def map_entry_field split: option.splits)

lemma startPositions_loop_NumOfRows:
  "map_option NumOfRows (map_of (fst (startPositions_loop sps s mods)) i)
     = map_option NumOfRows (map_of s i)"
  by (induction sps s mods rule: startPositions_loop.induct)
     (simp_all add: SegmentsInfo_SetStartPosition_def map_entry_field split: option.splits)

lemma checkpoints_loop_stale:
  assumes "\<forall>cp \<in> set cps. cp_SegmentID cp = i \<longrightarrow>
             (\<exists>p. cp_Position cp = Some p \<and> Timestamp p \<le> Timestamp dp)"
      and "map_option DmlPosition (map_of s i) = Some (Some dp)"
      and "map_option NumOfRows (map_of s i) = Some n"
  shows "map_option DmlPosition (map_of (fst (snd (checkpoints_loop cps s mods))) i) = Some (Some dp)
       \<and> map_option NumOfRows (map_of (fst (snd (checkpoints_loop cps s mods))) i) = Some n"
  using assms
proof (induction cps arbitrary: s mods)
  case Nil
  then show ?case by simp
next
  case (Cons cp cps)
  from Cons.prems(1) have rest: "\<forall>cp \<in> set cps. cp_SegmentID cp = i \<longrightarrow>
             (\<exists>p. cp_Position cp = Some p \<and> Timestamp p \<le> Timestamp dp)" by simp
  note IH = Cons.IH [OF rest]
  show ?case
  proof (cases "cp_SegmentID cp = i")
    case True
    with Cons.prems(1) obtain p where p: "cp_Position cp = Some p" "Timestamp p \<le> Timestamp dp"
      by auto
    from Cons.prems(2) obtain sg where sg: "map_of s i = Some sg" "DmlPosition sg = Some dp"
      by auto
    have "checkpoints_loop (cp # cps) s mods = checkpoints_loop cps s mods"
      using True p sg by (simp add: SegmentsInfo_GetSegment_def checkpoint_is_stale_def)
    with IH [OF Cons.prems(2) Cons.prems(3)] show ?thesis by simp
  next
    case False
    let ?s' = "SegmentsInfo_SetRowCount (cp_SegmentID cp) (cp_NumOfRows cp)
                 (SegmentsInfo_SetDmlPositino (cp_SegmentID cp) (cp_Position cp) s)"
    have same: "map_of ?s' i = map_of s i"
      using False
      by (simp add: SegmentsInfo_SetRowCount_def SegmentsInfo_SetDmlPositino_def map_of_map_entry)
    have a: "map_option DmlPosition (map_of ?s' i) = Some (Some dp)"
      and b: "map_option NumOfRows (map_of ?s' i) = Some n"
      using Cons.prems(2,3) by (simp_all only: same)
    show ?thesis
    proof (cases "SegmentsInfo_GetSegment s (cp_SegmentID cp)")
      case None
      then have "checkpoints_loop (cp # cps) s mods = checkpoints_loop cps s mods" by simp
      with IH [OF Cons.prems(2) Cons.prems(3)] show ?thesis by simp
    next
      case (Some segment)
      show ?thesis
      proof (cases "checkpoint_is_stale segment cp")
        case (Inl e)
        with Some have "checkpoints_loop (cp # cps) s mods = (Some e, s, mods)" by simp
        with Cons.prems(2,3) show ?thesis by simp
      next
        case (Inr stale)
        show ?thesis
        proof (cases stale)
          case True
          with Some Inr have "checkpoints_loop (cp # cps) s mods = checkpoints_loop cps s mods"
            by simp
          with IH [OF Cons.prems(2) Cons.prems(3)] show ?thesis by simp
        next
          case False
          with Some Inr have "checkpoints_loop (cp # cps) s mods =
              checkpoints_loop cps ?s' (mods @ [ID segment])" by simp
          with IH [OF a b] show ?thesis by simp
        qed
      qed
    qed
  qed
qed

text \<open>
  A call of \<open>SaveBinlogAndCheckPoints\<close> leaves a segment with its old row count or with the
  count of one of its checkpoints; so the count does not fall when none of those is below it.
\<close>

lemma checkpoints_loop_rows:
  assumes "\<forall>cp \<in> set cps. cp_SegmentID cp = j \<longrightarrow> n0 \<le> cp_NumOfRows cp"
      and "map_option NumOfRows (map_of s j) = Some n" and "n0 \<le> n"
  shows "\<exists>n'. map_option NumOfRows (map_of (fst (snd (checkpoints_loop cps s mods))) j) = Some n'
           \<and> n0 \<le> n'"
  using assms
proof (induction cps arbitrary: s mods n)
  case Nil
  then show ?case by auto
next
  case (Cons cp cps)
  from Cons.prems(1) have rest: "\<forall>cp \<in> set cps. cp_SegmentID cp = j \<longrightarrow> n0 \<le> cp_NumOfRows cp"
    by simp
  note IH = Cons.IH [OF rest]
  let ?s' = "SegmentsInfo_SetRowCount (cp_SegmentID cp) (cp_NumOfRows cp)
               (SegmentsInfo_SetDmlPositino (cp_SegmentID cp) (cp_Position cp) s)"
  have upd: "\<exists>n'. map_option NumOfRows (map_of ?s' j) = Some n' \<and> n0 \<le> n'"
  proof (cases "cp_SegmentID cp = j")
    case True
    from Cons.prems(2) obtain sg where "map_of s j = Some sg" by auto
    with True have "map_option NumOfRows (map_of ?s' j) = Some (cp_NumOfRows cp)"
      by (simp add: SegmentsInfo_SetRowCount_def SegmentsInfo_SetDmlPositino_def map_of_map_entry)
    moreover from True Cons.prems(1) have "n0 \<le> cp_NumOfRows cp" by simp
    ultimately show ?thesis by blast
  next
    case False
    then have "map_of ?s' j = map_of s j"
      by (simp add: SegmentsInfo_SetRowCount_def SegmentsInfo_SetDmlPositino_def map_of_map_entry)
    with Cons.prems(2,3) show ?thesis by auto
  qed
  show ?case
  proof (cases "SegmentsInfo_GetSegment s (cp_SegmentID cp)")
    case None
    then have "checkpoints_loop (cp # cps) s mods = checkpoints_loop cps s mods" by simp
    with IH [OF Cons.prems(2) Cons.prems(3)] show ?thesis by simp
  next
    case (Some segment)
    show ?thesis
    proof (cases "checkpoint_is_stale segment cp")
      case (Inl e)
      with Some have "fst (snd (checkpoints_loop (cp # cps) s mods)) = s" by simp
      with Cons.prems(2,3) show ?thesis by auto
    next
      case (Inr stale)
      show ?thesis
      proof (cases stale)
        case True
        with Some Inr have "checkpoints_loop (cp # cps) s mods = checkpoints_loop cps s mods"
          by simp
        with IH [OF Cons.prems(2) Cons.prems(3)] show ?thesis by simp
      next
        case False
        with Some Inr have e: "checkpoints_loop (cp # cps) s mods =
            checkpoints_loop cps ?s' (mods @ [ID segment])" by simp
        from upd obtain n' where "map_option NumOfRows (map_of ?s' j) = Some n'" "n0 \<le> n'"
          by blast
        from IH [OF this] e show ?thesis by simp
      qed
    qed
  qed
qed

lemma SetState_rows:
  "map_option NumOfRows (GetSegment (snd (SetState i st m)) j) = map_option NumOfRows (GetSegment m j)"
  by (simp add: GetSegment_def SegmentsInfo_GetSegment_def SetState_segments
        SegmentsInfo_SetState_def map_entry_field)

lemma flushCompleted_rows:
  "map_option NumOfRows (GetSegment (flushCompleted acked i m) j) = map_option NumOfRows (GetSegment m j)"
proof (cases "GetSegment m i")
  case None
  then show ?thesis by (simp add: flushCompleted_def)
next
  case (Some seg)
  then show ?thesis by (cases "acked seg") (simp_all add: flushCompleted_def SetState_rows)
qed

lemma SaveBinlogAndCheckPoints_rows:
  assumes "list_all (\<lambda>cp. rows_not_below m (cp_SegmentID cp) (cp_NumOfRows cp)) cps"
      and "GetSegment m j = Some seg"
  shows "\<exists>n'. map_option NumOfRows
            (GetSegment (snd (SaveBinlogAndCheckPoints segID flushed binlogs cps sps m)) j) = Some n'
           \<and> NumOfRows seg \<le> n'"
proof -
  let ?s0 = "if flushed then SegmentsInfo_SetState segID Flushing (segments m) else segments m"
  let ?s1 = "fst (startPositions_loop sps ?s0 [])"
  let ?mods1 = "snd (startPositions_loop sps ?s0 [])"
  from assms(2) have g: "map_of (segments m) j = Some seg"
    by (simp add: GetSegment_def SegmentsInfo_GetSegment_def)
  have "map_option NumOfRows (map_of ?s0 j) = map_option NumOfRows (map_of (segments m) j)"
    by (simp add: SegmentsInfo_SetState_def map_entry_field)
  with g have n0: "map_option NumOfRows (map_of ?s0 j) = Some (NumOfRows seg)" by simp
  have n1: "map_option NumOfRows (map_of ?s1 j) = Some (NumOfRows seg)"
    using n0 by (simp only: startPositions_loop_NumOfRows)
  have st: "\<forall>cp \<in> set cps. cp_SegmentID cp = j \<longrightarrow> NumOfRows seg \<le> cp_NumOfRows cp"
    using assms by (auto simp: list_all_iff rows_not_below_def)
  from checkpoints_loop_rows [OF st n1, of ?mods1]
  show ?thesis
    by (simp only: GetSegment_def SegmentsInfo_GetSegment_def SaveBinlogAndCheckPoints_segments)
qed

lemma apply_op_rows_forward:
  assumes "op_rows_forward m x" and "GetSegment m j = Some seg"
  shows "\<exists>seg'. GetSegment (apply_op x m) j = Some seg' \<and> NumOfRows seg \<le> NumOfRows seg'"
proof -
  have "\<exists>n'. map_option NumOfRows (GetSegment (apply_op x m) j) = Some n' \<and> NumOfRows seg \<le> n'"
  proof (cases x)
    case (OpSetState i st)
    with assms(2) show ?thesis by (simp only: apply_op.simps SetState_rows) simp
  next
    case (OpSaveBinlogAndCheckPoints segID flushed binlogs cps sps)
    with assms show ?thesis
      by (simp only: apply_op.simps op_rows_forward.simps SaveBinlogAndCheckPoints_rows)
  next
    case (OpFlushCompleted i ack)
    with assms(2) show ?thesis by (simp only: apply_op.simps flushCompleted_rows) simp
  next
    case (OpSetRowCount i n)
    show ?thesis
    proof (cases "i = j")
      case True
      with assms OpSetRowCount have "NumOfRows seg \<le> n" by (simp add: rows_not_below_def)
      moreover from True assms(2) OpSetRowCount
      have "GetSegment (apply_op x m) j = Some (seg\<lparr>NumOfRows := n\<rparr>)"
        by (simp add: SetRowCount_row)
      ultimately show ?thesis by simp
    next
      case False
      with assms(2) OpSetRowCount show ?thesis
        by (simp add: GetSegment_def SegmentsInfo_GetSegment_def SetRowCount_segments
              SegmentsInfo_SetRowCount_def map_of_map_entry)
    qed
  qed
  then show ?thesis by auto
qed

lemma rows_monotone_when_forward:
  "ops_rows_forward m ops \<Longrightarrow> GetSegment m j = Some seg \<Longrightarrow>
     \<exists>seg'. GetSegment (run_ops ops m) j = Some seg' \<and> NumOfRows seg \<le> NumOfRows seg'"
proof (induction ops arbitrary: m seg)
  case Nil
  then show ?case by simp
next
  case (Cons x ops)
  from Cons.prems have f: "op_rows_forward m x" and r: "ops_rows_forward (apply_op x m) ops"
    by simp_all
  from apply_op_rows_forward [OF f Cons.prems(2)] obtain seg1 where
    s1: "GetSegment (apply_op x m) j = Some seg1" and
    le1: "NumOfRows seg \<le> NumOfRows seg1" by blast
  from Cons.IH [OF r s1] obtain seg' where
    "GetSegment (run_ops ops (apply_op x m)) j = Some seg'"
    "NumOfRows seg1 \<le> NumOfRows seg'" by blast
  with le1 show ?case by auto
qed

text \<open>
  C6, amended. Over every sequence of meta operations (\<open>SetRowCount\<close>,
  \<open>SaveBinlogAndCheckPoints\<close>, and the operations on the state) in which every row count
  handed in, the argument of \<open>SetRowCount\<close> and the counts of the checkpoints, is not below
  the current count of its segment, the row count of every segment is monotone
  non-decreasing. \<open>SetRowCount\<close> itself stores the count it is given. And in
  \<open>SaveBinlogAndCheckPoints\<close>, when every checkpoint for a segment has a position whose
  timestamp is not newer than the timestamp of the segment's stored dml position, the
  segment's dml position and row count are as before.
\<close>

theorem row_count_and_stale_checkpoint:
  "(ops_rows_forward m ops \<and> GetSegment m i = Some seg \<longrightarrow>
      (\<exists>seg'. GetSegment (run_ops ops m) i = Some seg' \<and> NumOfRows seg \<le> NumOfRows seg'))
   \<and> (GetSegment m i = Some seg \<longrightarrow>
      GetSegment (snd (SetRowCount i n m)) i = Some (seg\<lparr>NumOfRows := n\<rparr>))
   \<and> (GetSegment m i = Some seg \<and> DmlPosition seg = Some dp
       \<and> (\<forall>cp \<in> set cps. cp_SegmentID cp = i \<longrightarrow>
             (\<exists>p. cp_Position cp = Some p \<and> Timestamp p \<le> Timestamp dp)) \<longrightarrow>
      map_option DmlPosition
        (GetSegment (snd (SaveBinlogAndCheckPoints segID flushed binlogs cps sps m)) i)
        = Some (Some dp)
      \<and> map_option NumOfRows
        (GetSegment (snd (SaveBinlogAndCheckPoints segID flushed binlogs cps sps m)) i)
        = Some (NumOfRows seg))"
proof (intro conjI impI)
  assume a: "ops_rows_forward m ops \<and> GetSegment m i = Some seg"
  from a have a1: "ops_rows_forward m ops" by (rule conjunct1)
  from a have a2: "GetSegment m i = Some seg" by (rule conjunct2)
  show "\<exists>seg'. GetSegment (run_ops ops m) i = Some seg' \<and> NumOfRows seg \<le> NumOfRows seg'"
    by (rule rows_monotone_when_forward [OF a1 a2])
next
  assume "GetSegment m i = Some seg"
  then show "GetSegment (snd (SetRowCount i n m)) i = Some (seg\<lparr>NumOfRows := n\<rparr>)"
    by (rule SetRowCount_row)
next
  assume a: "GetSegment m i = Some seg \<and> DmlPosition seg = Some dp
       \<and> (\<forall>cp \<in> set cps. cp_SegmentID cp = i \<longrightarrow>
             (\<exists>p. cp_Position cp = Some p \<and> Timestamp p \<le> Timestamp dp))"
  let ?s0 = "if flushed then SegmentsInfo_SetState segID Flushing (segments m) else segments m"
  let ?s1 = "fst (startPositions_loop sps ?s0 [])"
  let ?mods1 = "snd (startPositions_loop sps ?s0 [])"
  from a have g: "map_of (segments m) i = Some seg"
    by (simp add: GetSegment_def SegmentsInfo_GetSegment_def)
  have "map_option DmlPosition (map_of ?s0 i) = map_option DmlPosition (map_of (segments m) i)"
    by (simp add: SegmentsInfo_SetState_def map_entry_field)
  with a g have d0: "map_option DmlPosition (map_of ?s0 i) = Some (Some dp)" by simp
  have "map_option NumOfRows (map_of ?s0 i) = map_option NumOfRows (map_of (segments m) i)"
    by (simp add: SegmentsInfo_SetState_def map_entry_field)
  with g have n0: "map_option NumOfRows (map_of ?s0 i) = Some (NumOfRows seg)" by simp
  have d1: "map_option DmlPosition (map_of ?s1 i) = Some (Some dp)"
    using d0 by (simp only: startPositions_loop_DmlPosition)
  have n1: "map_option NumOfRows (map_of ?s1 i) = Some (NumOfRows seg)"
    using n0 by (simp only: startPositions_loop_NumOfRows)
  from a have st: "\<forall>cp \<in> set cps. cp_SegmentID cp = i \<longrightarrow>
             (\<exists>p. cp_Position cp = Some p \<and> Timestamp p \<le> Timestamp dp)" by simp
  from checkpoints_loop_stale [OF st d1 n1, of ?mods1]
  show "map_option DmlPosition
        (GetSegment (snd (SaveBinlogAndCheckPoints segID flushed binlogs cps sps m)) i)
        = Some (Some dp)"
    and "map_option NumOfRows
        (GetSegment (snd (SaveBinlogAndCheckPoints segID flushed binlogs cps sps m)) i)
        = Some (NumOfRows seg)"
    by (simp_all only: GetSegment_def SegmentsInfo_GetSegment_def SaveBinlogAndCheckPoints_segments)
qed

theorem row_count_and_stale_checkpoint_witness:
  "ops_rows_forward
      (example_meta [(example_segment 1 Growing)
         \<lparr>NumOfRows := 10, DmlPosition := Some (example_position [3] 8)\<rparr>])
      [OpSetRowCount 1 12,
       OpSaveBinlogAndCheckPoints 1 False []
         [\<lparr>cp_SegmentID = 1, cp_Position = Some (example_position [7] 20), cp_NumOfRows = 15\<rparr>] []]
   \<and> GetSegment (example_meta [(example_segment 1 Growing)
        \<lparr>NumOfRows := 10, DmlPosition := Some (example_position [3] 8)\<rparr>]) 1
     = Some ((example_segment 1 Growing)\<lparr>NumOfRows := 10, DmlPosition := Some (example_position [3] 8)\<rparr>)
   \<and> GetSegment (run_ops
        [OpSetRowCount 1 12,
         OpSaveBinlogAndCheckPoints 1 False []
           [\<lparr>cp_SegmentID = 1, cp_Position = Some (example_position [7] 20), cp_NumOfRows = 15\<rparr>] []]
        (example_meta [(example_segment 1 Growing)
           \<lparr>NumOfRows := 10, DmlPosition := Some (example_position [3] 8)\<rparr>])) 1
     = Some ((example_segment 1 Growing)\<lparr>NumOfRows := 15, DmlPosition := Some (example_position [7] 20)\<rparr>)
   \<and> GetSegment (snd (SetRowCount 1 12 (example_meta [(example_segment 1 Growing)
        \<lparr>NumOfRows := 10, DmlPosition := Some (example_position [3] 8)\<rparr>]))) 1
     = Some ((example_segment 1 Growing)\<lparr>NumOfRows := 12, DmlPosition := Some (example_position [3] 8)\<rparr>)
   \<and> Timestamp (example_position [7] 8) \<le> Timestamp (example_position [3] 8)
   \<and> GetSegment (snd (SaveBinlogAndCheckPoints 1 False []
         [\<lparr>cp_SegmentID = 1, cp_Position = Some (example_position [7] 8), cp_NumOfRows = 99\<rparr>] []
         (example_meta [(example_segment 1 Growing)
            \<lparr>NumOfRows := 10, DmlPosition := Some (example_position [3] 8)\<rparr>]))) 1
     = Some ((example_segment 1 Growing)\<lparr>NumOfRows := 10, DmlPosition := Some (example_position [3] 8)\<rparr>)"
  using row_count_and_stale_checkpoint
    [where m = "example_meta [(example_segment 1 Growing)
                  \<lparr>NumOfRows := 10, DmlPosition := Some (example_position [3] 8)\<rparr>]"
       and ops = "[OpSetRowCount 1 12,
                   OpSaveBinlogAndCheckPoints 1 False []
                     [\<lparr>cp_SegmentID = 1, cp_Position = Some (example_position [7] 20),
                       cp_NumOfRows = 15\<rparr>] []]"
       and i = 1 and n = 12 and dp = "example_position [3] 8"
       and seg = "(example_segment 1 Growing)
                  \<lparr>NumOfRows := 10, DmlPosition := Some (example_position [3] 8)\<rparr>"
       and cps = "[\<lparr>cp_SegmentID = 1, cp_Position = Some (example_position [7] 8),
                    cp_NumOfRows = 99\<rparr>]"
       and segID = 1 and flushed = False and binlogs = "[]" and sps = "[]"]
  by (simp add: GetSegment_def SegmentsInfo_GetSegment_def SetRowCount_segments
        SaveBinlogAndCheckPoints_segments SegmentsInfo_SetRowCount_def
        SegmentsInfo_SetDmlPositino_def checkpoint_is_stale_def rows_not_below_def
        example_meta_def example_segment_def example_position_def)

end
